theory Spec2Isabelle
  imports Complex_Main "HOL-Library.Sublist"
begin

section \<open>Paths: the functions of Node's \<open>path\<close> module the sources call\<close>

text \<open>
  The sources call \<open>path.resolve\<close>, \<open>path.join\<close> and \<open>path.dirname\<close> of Node's
  \<open>path\<close> module (POSIX flavour). They are library code, purely lexical (no file system
  access, no symbolic link is followed); they are modelled here after Node's
  implementation. A JavaScript string is a \<open>string\<close>; only the characters \<open>/\<close> and
  \<open>.\<close> matter to these functions.
\<close>

text \<open>Splitting at every \<open>/\<close>: \<open>a//b\<close> gives the segments \<open>a\<close>, the empty one and \<open>b\<close>.\<close>

fun split_slash :: "string \<Rightarrow> string list" where
  "split_slash [] = [[]]"
| "split_slash (c # cs) =
     (if c = CHR ''/'' then [] # split_slash cs
      else (case split_slash cs of
              [] \<Rightarrow> [[c]]
            | s # ss \<Rightarrow> (c # s) # ss))"

fun join_slash :: "string list \<Rightarrow> string" where
  "join_slash [] = []"
| "join_slash [s] = s"
| "join_slash (s # t # ts) = s @ ''/'' @ join_slash (t # ts)"

text \<open>
  Node's \<open>normalizeString(path, allowAboveRoot)\<close>, segment by segment: an empty segment
  and \<open>.\<close> are dropped; \<open>..\<close> removes the segment before it unless there is none or it
  is itself \<open>..\<close>, in which case \<open>..\<close> is kept when \<open>allowAboveRoot\<close> holds and dropped
  otherwise. The segments kept so far are held last first.
\<close>

fun normalize_segments :: "bool \<Rightarrow> string list \<Rightarrow> string list \<Rightarrow> string list" where
  "normalize_segments allowAboveRoot res [] = rev res"
| "normalize_segments allowAboveRoot res (s # ss) =
     (if s = [] \<or> s = ''.'' then normalize_segments allowAboveRoot res ss
      else if s = ''..'' then
        (case res of
           [] \<Rightarrow> if allowAboveRoot then normalize_segments allowAboveRoot [''..''] ss
                 else normalize_segments allowAboveRoot [] ss
         | t # ts \<Rightarrow>
             if t \<noteq> ''..'' then normalize_segments allowAboveRoot ts ss
             else if allowAboveRoot then normalize_segments allowAboveRoot (''..'' # res) ss
             else normalize_segments allowAboveRoot res ss)
      else normalize_segments allowAboveRoot (s # res) ss)"

definition normalizeString :: "string \<Rightarrow> bool \<Rightarrow> string" where
  "normalizeString path allowAboveRoot =
     join_slash (normalize_segments allowAboveRoot [] (split_slash path))"

text \<open>
  The loop of \<open>path.resolve\<close>: the arguments from the last to the first and then the
  process's current directory, until an absolute one is met; empty ones are skipped.
  The result is the joined path and whether it is absolute.
\<close>

fun resolve_loop :: "string list \<Rightarrow> string \<Rightarrow> string \<times> bool" where
  "resolve_loop [] resolvedPath = (resolvedPath, False)"
| "resolve_loop (path # rest) resolvedPath =
     (if path = [] then resolve_loop rest resolvedPath
      else if hd path = CHR ''/'' then (path @ ''/'' @ resolvedPath, True)
      else resolve_loop rest (path @ ''/'' @ resolvedPath))"

definition path_resolve :: "string \<Rightarrow> string list \<Rightarrow> string" where
  "path_resolve cwd args =
     (let (resolvedPath, resolvedAbsolute) = resolve_loop (rev args @ [cwd]) [];
          normalized = normalizeString resolvedPath (\<not> resolvedAbsolute)
      in if resolvedAbsolute then ''/'' @ normalized
         else if normalized \<noteq> [] then normalized else ''.'')"

text \<open>
  What a result of \<open>path.resolve\<close> looks like when it is absolute: \<open>/\<close> alone, or
  \<open>/\<close> and segments separated by single \<open>/\<close>, none of them empty, \<open>.\<close> or \<open>..\<close>.
\<close>

definition clean_segment :: "string \<Rightarrow> bool" where
  "clean_segment s = (s \<noteq> [] \<and> s \<noteq> ''.'' \<and> s \<noteq> ''..'' \<and> CHR ''/'' \<notin> set s)"

definition normalized_absolute :: "string \<Rightarrow> bool" where
  "normalized_absolute r =
     (r = ''/'' \<or> (r \<noteq> [] \<and> hd r = CHR ''/'' \<and> list_all clean_segment (split_slash (tl r))))"

section \<open>The agent (\<open>.codespace-agent/codespace-agent.js\<close>): the path sandbox\<close>

text \<open>
  \<open>safePath\<close> throws \<open>Error("Path is required")\<close> or
  \<open>Error("Invalid path: outside working directory")\<close>; both are values here. The
  candidate is a string or missing (\<open>None\<close>: \<open>undefined\<close>); the empty string is falsy
  as well. \<open>WORKDIR\<close> is read once at startup and is a parameter, and so is the current
  directory of the process, which \<open>path.resolve\<close> falls back to.
\<close>

datatype path_error = PathRequired | OutsideWorkdir

fun error_message :: "path_error \<Rightarrow> string" where
  "error_message PathRequired = ''Path is required''"
| "error_message OutsideWorkdir = ''Invalid path: outside working directory''"

definition safePath :: "string \<Rightarrow> string \<Rightarrow> string option \<Rightarrow> path_error + string" where
  "safePath cwd WORKDIR p =
     (case p of
        None \<Rightarrow> Inl PathRequired
      | Some q \<Rightarrow>
          if q = [] then Inl PathRequired
          else (let resolved = path_resolve cwd [WORKDIR, q]
                in if \<not> prefix WORKDIR resolved then Inl OutsideWorkdir
                   else Inr resolved))"

section \<open>The agent: configuration and the authentication gate\<close>

text \<open>
  The configuration is read once at startup: \<open>WORKDIR\<close>, \<open>AGENT_TOKEN\<close>,
  \<open>ALLOWED_EXTENSIONS\<close> (\<open>None\<close>: \<open>null\<close>, every extension allowed), the platform name
  (\<open>process.platform\<close>) and the current directory of the process. Writes to the console
  (\<open>console.log\<close>, \<open>console.warn\<close>, \<open>console.error\<close>) are not part of the model.
\<close>

record config =
  WORKDIR :: string
  AGENT_TOKEN :: string
  ALLOWED_EXTENSIONS :: "string list option"
  platform :: string
  process_cwd :: string

text \<open>
  \<open>assertAuth\<close>: the value of the \<open>Authorization\<close> header (\<open>None\<close>: no such header)
  against \<open>Bearer\<close>, a space and the token. On \<open>False\<close> the 401 response has been
  sent; the handlers below send it where they call \<open>assertAuth\<close>.
\<close>

definition assertAuth :: "config \<Rightarrow> string option \<Rightarrow> bool" where
  "assertAuth cfg auth =
     (case auth of
        None \<Rightarrow> False
      | Some a \<Rightarrow> if a = [] \<or> a \<noteq> ''Bearer '' @ AGENT_TOKEN cfg then False else True)"

section \<open>The agent: terminal sessions over WebSocket\<close>

text \<open>
  The result of \<open>JSON.parse\<close>. A number is a real (the only test made on one is whether
  it is zero). An object is the list of its properties, each key once.
\<close>

datatype json =
    JNull
  | JBool bool
  | JNumber real
  | JString string
  | JArray "json list"
  | JObject "(string \<times> json) list"

text \<open>
  Reading a property: \<open>None\<close> is \<open>undefined\<close> (the property is missing, or the value is
  not an object; none of the names read here is on a prototype). The outer \<open>None\<close> is
  the \<open>TypeError\<close> of reading a property of \<open>null\<close>.
\<close>

fun get_property :: "json \<Rightarrow> string \<Rightarrow> json option option" where
  "get_property JNull k = None"
| "get_property (JObject props) k = Some (map_of props k)"
| "get_property v k = Some None"

fun truthy :: "json \<Rightarrow> bool" where
  "truthy JNull = False"
| "truthy (JBool b) = b"
| "truthy (JNumber n) = (n \<noteq> 0)"
| "truthy (JString s) = (s \<noteq> [])"
| "truthy (JArray xs) = True"
| "truthy (JObject props) = True"

text \<open>\<open>v || d\<close> for a property \<open>v\<close> that may be \<open>undefined\<close>.\<close>

fun or_default :: "json option \<Rightarrow> json \<Rightarrow> json" where
  "or_default None d = d"
| "or_default (Some v) d = (if truthy v then v else d)"

text \<open>
  The frames the server sends: raw output of the process, or \<open>JSON.stringify\<close> of one of
  the three structured messages.
\<close>

datatype frame =
    Raw string
  | Connected string string string
  | Pong
  | Exit int "string option"

text \<open>
  What a handler does to the world outside it: calls on the raw socket of an upgrade
  request, on a pseudo-terminal process (\<open>node-pty\<close>) and on a WebSocket. Processes and
  WebSockets are named by handles. A call counts as made when the handler reaches it;
  an exception thrown by the library is caught by the handler's \<open>try\<close>, which only logs.
\<close>

datatype effect =
    SocketWrite string
  | SocketDestroy
  | PtySpawn nat string string nat nat
  | ShellWrite nat string
  | ShellResize nat json json
  | ShellKill nat
  | WsSend nat frame
  | WsClose nat

datatype ready_state = CONNECTING | OPEN | CLOSING | CLOSED

text \<open>
  The state of the server: \<open>activeSessions\<close> (session id to process) and the
  \<open>readyState\<close> of every WebSocket.
\<close>

record server_state =
  activeSessions :: "string \<rightharpoonup> nat"
  readyState :: "nat \<Rightarrow> ready_state"

text \<open>
  The variables one connection's handlers close over: the session id
  (\<open>Math.random().toString(36).substring(7)\<close>, an input here), the process that
  \<open>pty.spawn\<close> returned and the WebSocket.
\<close>

record session =
  sessionId :: string
  shell :: nat
  ws :: nat

definition on_connection :: "config \<Rightarrow> session \<Rightarrow> server_state \<Rightarrow> effect list \<times> server_state" where
  "on_connection cfg c st =
     ([PtySpawn (shell c) (if platform cfg = ''win32'' then ''powershell.exe'' else ''bash'')
         (WORKDIR cfg) 80 30,
       WsSend (ws c) (Connected (sessionId c) (WORKDIR cfg) (platform cfg))],
      st\<lparr>activeSessions := (activeSessions st)(sessionId c \<mapsto> shell c)\<rparr>)"

text \<open>\<open>shell.onData\<close>: output of the process goes to the WebSocket while it is open.\<close>

definition on_shell_data :: "session \<Rightarrow> string \<Rightarrow> server_state \<Rightarrow> effect list \<times> server_state" where
  "on_shell_data c d st =
     (if readyState st (ws c) = OPEN then ([WsSend (ws c) (Raw d)], st) else ([], st))"

text \<open>\<open>shell.onExit\<close>; \<open>ws.close()\<close> leaves the WebSocket in the state \<open>CLOSING\<close>.\<close>

definition on_shell_exit ::
  "session \<Rightarrow> int \<Rightarrow> string option \<Rightarrow> server_state \<Rightarrow> effect list \<times> server_state" where
  "on_shell_exit c exitCode signal st =
     (let (effs, st1) =
            (if readyState st (ws c) = OPEN
             then ([WsSend (ws c) (Exit exitCode signal), WsClose (ws c)],
                   st\<lparr>readyState := (readyState st)(ws c := CLOSING)\<rparr>)
             else ([], st))
      in (effs, st1\<lparr>activeSessions := (activeSessions st1)(sessionId c := None)\<rparr>))"

text \<open>
  \<open>ws.on("message")\<close>. \<open>JSON.parse\<close> is a parameter (\<open>None\<close>: it throws); the handler
  calls it only on a text that starts with \<open>{\<close>.
\<close>

definition on_message ::
  "(string \<Rightarrow> json option) \<Rightarrow> session \<Rightarrow> string \<Rightarrow> server_state \<Rightarrow> effect list \<times> server_state" where
  "on_message JSON_parse c msg st =
     (if prefix ''{'' msg then
        (case JSON_parse msg of
           None \<Rightarrow> ([], st)
         | Some json \<Rightarrow>
             (case get_property json ''type'' of
                None \<Rightarrow> ([], st)
              | Some ty \<Rightarrow>
                  if ty = Some (JString ''resize'') then
                    (case (get_property json ''cols'', get_property json ''rows'') of
                       (Some cols, Some rows) \<Rightarrow>
                         ([ShellResize (shell c) (or_default cols (JNumber 80))
                             (or_default rows (JNumber 30))], st)
                     | _ \<Rightarrow> ([], st))
                  else if ty = Some (JString ''ping'') then ([WsSend (ws c) Pong], st)
                  else ([], st)))
      else ([ShellWrite (shell c) msg], st))"

text \<open>
  \<open>ws.on("close")\<close>, for a close by the peer and for a lost connection alike; the
  WebSocket is \<open>CLOSED\<close> when the event is emitted.
\<close>

definition on_close :: "session \<Rightarrow> server_state \<Rightarrow> effect list \<times> server_state" where
  "on_close c st =
     (let st1 = st\<lparr>readyState := (readyState st)(ws c := CLOSED)\<rparr>
      in ([ShellKill (shell c)],
          st1\<lparr>activeSessions := (activeSessions st1)(sessionId c := None)\<rparr>))"

text \<open>
  \<open>server.on("upgrade")\<close>. The request carries the \<open>Authorization\<close> header, the URL and
  whether the \<open>ws\<close> library accepts the handshake (\<open>wss.handleUpgrade\<close> answers 400 and
  destroys the socket otherwise); \<open>c\<close> holds the id, process and WebSocket the new
  session gets.
\<close>

record upgrade_request =
  upgrade_authorization :: "string option"
  upgrade_url :: string
  handshake_valid :: bool

definition on_upgrade ::
  "config \<Rightarrow> upgrade_request \<Rightarrow> session \<Rightarrow> server_state \<Rightarrow> effect list \<times> server_state" where
  "on_upgrade cfg req c st =
     (if upgrade_authorization req \<noteq> Some (''Bearer '' @ AGENT_TOKEN cfg) then
        ([SocketWrite (''HTTP/1.1 401 Unauthorized'' @ [CHR 0x0D, CHR 0x0A, CHR 0x0D, CHR 0x0A]),
          SocketDestroy], st)
      else if upgrade_url req = ''/ws/terminal'' then
        (if handshake_valid req then
           on_connection cfg c (st\<lparr>readyState := (readyState st)(ws c := OPEN)\<rparr>)
         else
           ([SocketWrite (''HTTP/1.1 400 Bad Request'' @ [CHR 0x0D, CHR 0x0A, CHR 0x0D, CHR 0x0A]),
             SocketDestroy], st))
      else
        ([SocketWrite (''HTTP/1.1 404 Not Found'' @ [CHR 0x0D, CHR 0x0A, CHR 0x0D, CHR 0x0A]),
          SocketDestroy], st))"

text \<open>One connection's events after its session exists, and a run of them.\<close>

datatype session_event =
    Message string
  | ShellData string
  | ShellExit int "string option"
  | Close

fun session_step ::
  "(string \<Rightarrow> json option) \<Rightarrow> session \<Rightarrow> session_event \<Rightarrow> server_state \<Rightarrow> effect list \<times> server_state" where
  "session_step JSON_parse c (Message msg) st = on_message JSON_parse c msg st"
| "session_step JSON_parse c (ShellData d) st = on_shell_data c d st"
| "session_step JSON_parse c (ShellExit exitCode signal) st = on_shell_exit c exitCode signal st"
| "session_step JSON_parse c Close st = on_close c st"

fun session_run ::
  "(string \<Rightarrow> json option) \<Rightarrow> session \<Rightarrow> session_event list \<Rightarrow> server_state \<Rightarrow> effect list \<times> server_state" where
  "session_run JSON_parse c [] st = ([], st)"
| "session_run JSON_parse c (e # es) st =
     (let (effs1, st1) = session_step JSON_parse c e st;
          (effs2, st2) = session_run JSON_parse c es st1
      in (effs1 @ effs2, st2))"

text \<open>Which effects start a process, write to one, and send a frame.\<close>

fun is_spawn :: "effect \<Rightarrow> bool" where
  "is_spawn (PtySpawn sh prog dir cols rows) = True"
| "is_spawn e = False"

fun is_shell_write :: "effect \<Rightarrow> bool" where
  "is_shell_write (ShellWrite sh d) = True"
| "is_shell_write e = False"

fun is_send :: "effect \<Rightarrow> bool" where
  "is_send (WsSend w f) = True"
| "is_send e = False"

definition unauthorized_reply :: "effect list" where
  "unauthorized_reply =
     [SocketWrite (''HTTP/1.1 401 Unauthorized'' @ [CHR 0x0D, CHR 0x0A, CHR 0x0D, CHR 0x0A]),
      SocketDestroy]"

text \<open>
  For the examples: the text \<open>{"type":"ping"}\<close>, a resize message without \<open>cols\<close>, and
  what \<open>JSON.parse\<close> gives on these and on \<open>{}\<close> (it throws on the other texts used).
\<close>

definition ping_text :: string where
  "ping_text = ''{'' @ [CHR 0x22] @ ''type'' @ [CHR 0x22] @ '':'' @ [CHR 0x22] @ ''ping'' @ [CHR 0x22] @ ''}''"

definition resize_text :: string where
  "resize_text = ''{'' @ [CHR 0x22] @ ''type'' @ [CHR 0x22] @ '':'' @ [CHR 0x22] @ ''resize'' @ [CHR 0x22]
     @ '','' @ [CHR 0x22] @ ''rows'' @ [CHR 0x22] @ '':50}''"

definition example_parse :: "string \<Rightarrow> json option" where
  "example_parse t =
     (if t = ping_text then Some (JObject [(''type'', JString ''ping'')])
      else if t = resize_text then Some (JObject [(''type'', JString ''resize''), (''rows'', JNumber 50)])
      else if t = ''{}'' then Some (JObject [])
      else None)"

definition example_session :: session where
  "example_session = \<lparr>sessionId = ''k3x9q'', shell = 1, ws = 2\<rparr>"

definition example_state :: server_state where
  "example_state = \<lparr>activeSessions = [''k3x9q'' \<mapsto> 1], readyState = (\<lambda>w. if w = 2 then OPEN else CLOSED)\<rparr>"

text \<open>A property that is missing or holds a falsy value.\<close>

fun falsy_or_missing :: "json option \<Rightarrow> bool" where
  "falsy_or_missing None = True"
| "falsy_or_missing (Some v) = (\<not> truthy v)"

section \<open>More of Node's \<open>path\<close> module\<close>

definition path_normalize :: "string \<Rightarrow> string" where
  "path_normalize path =
     (if path = [] then ''.''
      else (let isAbsolute = (hd path = CHR ''/'');
                trailingSeparator = (last path = CHR ''/'');
                p = normalizeString path (\<not> isAbsolute)
            in if p = [] then (if isAbsolute then ''/'' else if trailingSeparator then ''./'' else ''.'')
               else (let p2 = (if trailingSeparator then p @ ''/'' else p)
                     in if isAbsolute then ''/'' @ p2 else p2)))"

definition path_join :: "string list \<Rightarrow> string" where
  "path_join args =
     (let parts = filter (\<lambda>a. a \<noteq> []) args
      in if parts = [] then ''.'' else path_normalize (join_slash parts))"

text \<open>
  \<open>path.dirname\<close>: the scan from the end skips the slashes that end the path and
  stops at the next slash; the first character is not scanned.
\<close>

definition path_dirname :: "string \<Rightarrow> string" where
  "path_dirname path =
     (if path = [] then ''.''
      else (let hasRoot = (hd path = CHR ''/'');
                r = dropWhile (\<lambda>c. c \<noteq> CHR ''/'') (dropWhile (\<lambda>c. c = CHR ''/'') (rev (tl path)))
            in if r = [] then (if hasRoot then ''/'' else ''.'')
               else if hasRoot \<and> length r = 1 then ''//''
               else take (length r) path))"

text \<open>
  \<open>path.extname\<close>: in the last portion of the path, from the last \<open>.\<close> to the end; empty
  when there is no \<open>.\<close>, when the last \<open>.\<close> is the first character of the portion, and
  for the portion \<open>..\<close>.
\<close>

definition path_extname :: "string \<Rightarrow> string" where
  "path_extname path =
     (let b = rev (takeWhile (\<lambda>c. c \<noteq> CHR ''/'') (dropWhile (\<lambda>c. c = CHR ''/'') (rev path)));
          ext = rev (takeWhile (\<lambda>c. c \<noteq> CHR ''.'') (rev b));
          pre = take (length b - length ext - 1) b
      in if CHR ''.'' \<notin> set b \<or> pre = [] \<or> b = ''..'' then [] else CHR ''.'' # ext)"

text \<open>
  \<open>String.prototype.toLowerCase\<close>, on the ASCII letters; other characters are left as
  they are.
\<close>

definition lower_char :: "char \<Rightarrow> char" where
  "lower_char c = (let n = (of_char c :: nat) in if 65 \<le> n \<and> n \<le> 90 then char_of (n + 32) else c)"

definition toLowerCase :: "string \<Rightarrow> string" where
  "toLowerCase s = map lower_char s"

section \<open>The file system (Node's \<open>fs/promises\<close>), as far as the sources use it\<close>

text \<open>
  A file system is a list of entries, each keyed by the segments of its absolute path;
  the root is always a directory. The operating system resolves the path it is handed
  against the current directory of the process, lexically (as \<open>path.resolve\<close> does: no
  symbolic links in the model). There are no permissions, no sizes of directories, no
  time stamps. The operations below are library code, modelled after their
  documentation; each fails with an error code or succeeds with the new file system.
\<close>

datatype node = File string | Dir

type_synonym filesystem = "(string list \<times> node) list"

datatype fs_error = ENOENT | EISDIR | ENOTDIR | EEXIST | ERR_FS_EISDIR | ERR_INVALID_ARG_TYPE

definition segments_of :: "string \<Rightarrow> string \<Rightarrow> string list" where
  "segments_of cwd p =
     (let (resolvedPath, resolvedAbsolute) = resolve_loop [p, cwd] []
      in normalize_segments (\<not> resolvedAbsolute) [] (split_slash resolvedPath))"

definition fs_lookup :: "filesystem \<Rightarrow> string list \<Rightarrow> node option" where
  "fs_lookup fs k = (if k = [] then Some Dir else map_of fs k)"

definition fs_put :: "string list \<Rightarrow> node \<Rightarrow> filesystem \<Rightarrow> filesystem" where
  "fs_put k n fs = (k, n) # filter (\<lambda>e. fst e \<noteq> k) fs"

record stats =
  stats_size :: nat
  isDirectory :: bool
  isFile :: bool

fun node_stats :: "node \<Rightarrow> stats" where
  "node_stats (File content) = \<lparr>stats_size = length content, isDirectory = False, isFile = True\<rparr>"
| "node_stats Dir = \<lparr>stats_size = 0, isDirectory = True, isFile = False\<rparr>"

definition fs_stat :: "filesystem \<Rightarrow> string list \<Rightarrow> fs_error + stats" where
  "fs_stat fs k = (case fs_lookup fs k of None \<Rightarrow> Inl ENOENT | Some n \<Rightarrow> Inr (node_stats n))"

definition fs_readFile :: "filesystem \<Rightarrow> string list \<Rightarrow> fs_error + string" where
  "fs_readFile fs k =
     (case fs_lookup fs k of
        None \<Rightarrow> Inl ENOENT
      | Some Dir \<Rightarrow> Inl EISDIR
      | Some (File content) \<Rightarrow> Inr content)"

text \<open>\<open>fs.writeFile\<close> creates the file when it is missing and its directory exists.\<close>

definition fs_writeFile :: "filesystem \<Rightarrow> string list \<Rightarrow> string \<Rightarrow> fs_error + filesystem" where
  "fs_writeFile fs k content =
     (case fs_lookup fs k of
        Some Dir \<Rightarrow> Inl EISDIR
      | _ \<Rightarrow>
          (case fs_lookup fs (butlast k) of
             None \<Rightarrow> Inl ENOENT
           | Some (File c) \<Rightarrow> Inl ENOTDIR
           | Some Dir \<Rightarrow> Inr (fs_put k (File content) fs)))"

text \<open>
  \<open>fs.mkdir\<close>. With \<open>recursive\<close> every missing directory on the way is created and an
  existing directory is no error; \<open>mkdir_each\<close> walks the prefixes of the path.
\<close>

fun mkdir_each :: "filesystem \<Rightarrow> string list list \<Rightarrow> fs_error + filesystem" where
  "mkdir_each fs [] = Inr fs"
| "mkdir_each fs (k # ks) =
     (case fs_lookup fs k of
        Some Dir \<Rightarrow> mkdir_each fs ks
      | Some (File c) \<Rightarrow> Inl (if ks = [] then EEXIST else ENOTDIR)
      | None \<Rightarrow> mkdir_each (fs_put k Dir fs) ks)"

definition fs_mkdir :: "filesystem \<Rightarrow> string list \<Rightarrow> bool \<Rightarrow> fs_error + filesystem" where
  "fs_mkdir fs k recursive =
     (if recursive then mkdir_each fs (prefixes k)
      else (case fs_lookup fs k of
              Some n \<Rightarrow> Inl EEXIST
            | None \<Rightarrow>
                (case fs_lookup fs (butlast k) of
                   None \<Rightarrow> Inl ENOENT
                 | Some (File c) \<Rightarrow> Inl ENOTDIR
                 | Some Dir \<Rightarrow> Inr (fs_put k Dir fs))))"

text \<open>
  \<open>fs.rm\<close>: a directory is removed, with all that is below it, only when \<open>recursive\<close> is
  set; without it the call fails, whether the directory is empty or not. \<open>force\<close>
  makes a missing path no error.
\<close>

definition fs_rm :: "filesystem \<Rightarrow> string list \<Rightarrow> bool \<Rightarrow> bool \<Rightarrow> fs_error + filesystem" where
  "fs_rm fs k recursive force =
     (case fs_lookup fs k of
        None \<Rightarrow> if force then Inr fs else Inl ENOENT
      | Some (File c) \<Rightarrow> Inr (filter (\<lambda>e. fst e \<noteq> k) fs)
      | Some Dir \<Rightarrow>
          if recursive then Inr (filter (\<lambda>e. \<not> prefix k (fst e)) fs)
          else Inl ERR_FS_EISDIR)"

definition fs_unlink :: "filesystem \<Rightarrow> string list \<Rightarrow> fs_error + filesystem" where
  "fs_unlink fs k =
     (case fs_lookup fs k of
        None \<Rightarrow> Inl ENOENT
      | Some Dir \<Rightarrow> Inl EISDIR
      | Some (File c) \<Rightarrow> Inr (filter (\<lambda>e. fst e \<noteq> k) fs))"

text \<open>
  \<open>fs.readdir\<close> with \<open>withFileTypes\<close>: the names directly below the directory, each with
  whether it is a directory. A name is never empty, \<open>.\<close> or \<open>..\<close> and holds no \<open>/\<close>.
\<close>

record dirent =
  entry_name :: string
  entry_isDirectory :: bool

definition fs_readdir :: "filesystem \<Rightarrow> string list \<Rightarrow> fs_error + dirent list" where
  "fs_readdir fs k =
     (case fs_lookup fs k of
        None \<Rightarrow> Inl ENOENT
      | Some (File c) \<Rightarrow> Inl ENOTDIR
      | Some Dir \<Rightarrow>
          Inr (map (\<lambda>q. \<lparr>entry_name = last q, entry_isDirectory = (fs_lookup fs q = Some Dir)\<rparr>)
                 (filter (\<lambda>q. q \<noteq> [] \<and> butlast q = k \<and> clean_segment (last q))
                    (remdups (map fst fs)))))"

text \<open>Whether a directory has something in it.\<close>

definition non_empty_directory :: "filesystem \<Rightarrow> string list \<Rightarrow> bool" where
  "non_empty_directory fs k =
     (fs_lookup fs k = Some Dir \<and> list_ex (\<lambda>e. strict_prefix k (fst e)) fs)"

section \<open>The agent: the HTTP handlers\<close>

text \<open>
  The world of a handler: the file system, and the calls made on it so far, each with
  the path string it was handed.
\<close>

datatype fs_call =
    FsAccess string
  | FsStat string
  | FsReadFile string
  | FsWriteFile string
  | FsMkdir string
  | FsRm string
  | FsUnlink string
  | FsReaddir string

fun call_path :: "fs_call \<Rightarrow> string" where
  "call_path (FsAccess p) = p"
| "call_path (FsStat p) = p"
| "call_path (FsReadFile p) = p"
| "call_path (FsWriteFile p) = p"
| "call_path (FsMkdir p) = p"
| "call_path (FsRm p) = p"
| "call_path (FsUnlink p) = p"
| "call_path (FsReaddir p) = p"

record world =
  files :: filesystem
  calls :: "fs_call list"

definition logged :: "fs_call \<Rightarrow> world \<Rightarrow> world" where
  "logged c w = w\<lparr>calls := calls w @ [c]\<rparr>"

text \<open>
  A request, with the fields the handlers read: the \<open>Authorization\<close> header, the query
  parameters and the properties of the JSON body. A parameter or property is a string
  or missing; \<open>createDirs\<close> and \<open>recursive\<close> of a body are read for their truth value.
\<close>

record request =
  authorization :: "string option"
  query_path :: "string option"
  query_recursive :: "string option"
  query_detailed :: "string option"
  query_query :: "string option"
  body_path :: "string option"
  body_content :: "string option"
  body_createDirs :: "bool option"
  body_recursive :: "bool option"

text \<open>What a response holds: the status and the JSON body.\<close>

datatype failure = ErrorMessage string | FsError fs_error | TypeError

record item =
  item_name :: string
  item_type :: string
  item_size :: "nat option"

record search_result =
  result_name :: string
  result_path :: string
  result_type :: string

datatype payload =
    ErrorBody failure
  | TooLargeBody nat
  | ExtensionBody "string list option"
  | HealthBody string string
  | FileBody "string option" string stats
  | WrittenBody string "stats option"
  | DeletedBody "string option"
  | ListingBody string "item list"
  | MadeBody string
  | StatBody "string option" "stats option"
  | SearchBody string "search_result list" nat

record response =
  status :: nat
  body :: payload

definition MAX_FILE_SIZE :: nat where
  "MAX_FILE_SIZE = 10 * 1024 * 1024"

definition unauthorized :: response where
  "unauthorized = \<lparr>status = 401, body = ErrorBody (ErrorMessage ''Unauthorized'')\<rparr>"

definition fileExists :: "config \<Rightarrow> string \<Rightarrow> world \<Rightarrow> bool \<times> world" where
  "fileExists cfg filePath w =
     (fs_lookup (files w) (segments_of (process_cwd cfg) filePath) \<noteq> None,
      logged (FsAccess filePath) w)"

definition getFileStats :: "config \<Rightarrow> string \<Rightarrow> world \<Rightarrow> stats option \<times> world" where
  "getFileStats cfg filePath w =
     (case fs_stat (files w) (segments_of (process_cwd cfg) filePath) of
        Inl e \<Rightarrow> (None, logged (FsStat filePath) w)
      | Inr s \<Rightarrow> (Some s, logged (FsStat filePath) w))"

definition isAllowedExtension :: "config \<Rightarrow> string \<Rightarrow> bool" where
  "isAllowedExtension cfg filePath =
     (case ALLOWED_EXTENSIONS cfg of
        None \<Rightarrow> True
      | Some allowed \<Rightarrow>
          (let ext = toLowerCase (path_extname filePath)
           in ext \<in> set allowed \<or> drop 1 ext \<in> set allowed))"

text \<open>\<open>GET /health\<close>: no credential is asked for.\<close>

definition get_health :: "config \<Rightarrow> request \<Rightarrow> world \<Rightarrow> response \<times> world" where
  "get_health cfg req w = (\<lparr>status = 200, body = HealthBody (WORKDIR cfg) (platform cfg)\<rparr>, w)"

text \<open>\<open>GET /api/files\<close>: read a file.\<close>

definition get_api_files :: "config \<Rightarrow> request \<Rightarrow> world \<Rightarrow> response \<times> world" where
  "get_api_files cfg req w =
     (if \<not> assertAuth cfg (authorization req) then (unauthorized, w)
      else
        (case safePath (process_cwd cfg) (WORKDIR cfg) (query_path req) of
           Inl e \<Rightarrow> (\<lparr>status = 400, body = ErrorBody (ErrorMessage (error_message e))\<rparr>, w)
         | Inr filePath \<Rightarrow>
             (let (found, w1) = fileExists cfg filePath w
              in if \<not> found
                 then (\<lparr>status = 404, body = ErrorBody (ErrorMessage ''File not found'')\<rparr>, w1)
                 else
                   (let (st, w2) = getFileStats cfg filePath w1
                    in case st of
                         None \<Rightarrow> (\<lparr>status = 400, body = ErrorBody TypeError\<rparr>, w2)
                       | Some s \<Rightarrow>
                           if isDirectory s
                           then (\<lparr>status = 400,
                                  body = ErrorBody (ErrorMessage ''Path is a directory, not a file'')\<rparr>, w2)
                           else if stats_size s > MAX_FILE_SIZE
                           then (\<lparr>status = 413, body = TooLargeBody (stats_size s)\<rparr>, w2)
                           else
                             (let w3 = logged (FsReadFile filePath) w2
                              in case fs_readFile (files w2) (segments_of (process_cwd cfg) filePath) of
                                   Inl e \<Rightarrow> (\<lparr>status = 400, body = ErrorBody (FsError e)\<rparr>, w3)
                                 | Inr content \<Rightarrow>
                                     (\<lparr>status = 200,
                                       body = FileBody (query_path req) content s\<rparr>, w3))))))"

text \<open>\<open>POST /api/files\<close>: write a file, creating it when it is missing.\<close>

definition post_api_files :: "config \<Rightarrow> request \<Rightarrow> world \<Rightarrow> response \<times> world" where
  "post_api_files cfg req w =
     (if \<not> assertAuth cfg (authorization req) then (unauthorized, w)
      else
        (case (body_path req, body_content req) of
           (Some file, Some content) \<Rightarrow>
             if file = []
             then (\<lparr>status = 400, body = ErrorBody (ErrorMessage ''Path and content are required'')\<rparr>, w)
             else
               (case safePath (process_cwd cfg) (WORKDIR cfg) (Some file) of
                  Inl e \<Rightarrow> (\<lparr>status = 400, body = ErrorBody (ErrorMessage (error_message e))\<rparr>, w)
                | Inr filePath \<Rightarrow>
                    if \<not> isAllowedExtension cfg filePath
                    then (\<lparr>status = 403, body = ExtensionBody (ALLOWED_EXTENSIONS cfg)\<rparr>, w)
                    else
                      (let createDirs = (case body_createDirs req of None \<Rightarrow> True | Some b \<Rightarrow> b);
                           made =
                             (if createDirs
                              then (fs_mkdir (files w)
                                      (segments_of (process_cwd cfg) (path_dirname filePath)) True,
                                    logged (FsMkdir (path_dirname filePath)) w)
                              else (Inr (files w), w))
                       in case made of
                            (Inl e, w1) \<Rightarrow> (\<lparr>status = 400, body = ErrorBody (FsError e)\<rparr>, w1)
                          | (Inr fs1, w1) \<Rightarrow>
                              (let w2 = logged (FsWriteFile filePath) (w1\<lparr>files := fs1\<rparr>)
                               in case fs_writeFile fs1 (segments_of (process_cwd cfg) filePath) content of
                                    Inl e \<Rightarrow> (\<lparr>status = 400, body = ErrorBody (FsError e)\<rparr>, w2)
                                  | Inr fs2 \<Rightarrow>
                                      (let (st, w3) = getFileStats cfg filePath (w2\<lparr>files := fs2\<rparr>)
                                       in (\<lparr>status = 200, body = WrittenBody file st\<rparr>, w3)))))
         | _ \<Rightarrow> (\<lparr>status = 400, body = ErrorBody (ErrorMessage ''Path and content are required'')\<rparr>, w)))"

text \<open>\<open>PUT /api/files\<close>: update a file that exists.\<close>

definition put_api_files :: "config \<Rightarrow> request \<Rightarrow> world \<Rightarrow> response \<times> world" where
  "put_api_files cfg req w =
     (if \<not> assertAuth cfg (authorization req) then (unauthorized, w)
      else
        (case (body_path req, body_content req) of
           (Some file, Some content) \<Rightarrow>
             if file = []
             then (\<lparr>status = 400, body = ErrorBody (ErrorMessage ''Path and content are required'')\<rparr>, w)
             else
               (case safePath (process_cwd cfg) (WORKDIR cfg) (Some file) of
                  Inl e \<Rightarrow> (\<lparr>status = 400, body = ErrorBody (ErrorMessage (error_message e))\<rparr>, w)
                | Inr filePath \<Rightarrow>
                    (let (found, w1) = fileExists cfg filePath w
                     in if \<not> found
                        then (\<lparr>status = 404, body = ErrorBody (ErrorMessage ''File not found'')\<rparr>, w1)
                        else
                          (let w2 = logged (FsWriteFile filePath) w1
                           in case fs_writeFile (files w1) (segments_of (process_cwd cfg) filePath) content of
                                Inl e \<Rightarrow> (\<lparr>status = 400, body = ErrorBody (FsError e)\<rparr>, w2)
                              | Inr fs2 \<Rightarrow>
                                  (let (st, w3) = getFileStats cfg filePath (w2\<lparr>files := fs2\<rparr>)
                                   in (\<lparr>status = 200, body = WrittenBody file st\<rparr>, w3)))))
         | _ \<Rightarrow> (\<lparr>status = 400, body = ErrorBody (ErrorMessage ''Path and content are required'')\<rparr>, w)))"

text \<open>\<open>DELETE /api/files\<close>: a directory goes through \<open>fs.rm\<close>, a file through \<open>fs.unlink\<close>.\<close>

definition delete_api_files :: "config \<Rightarrow> request \<Rightarrow> world \<Rightarrow> response \<times> world" where
  "delete_api_files cfg req w =
     (if \<not> assertAuth cfg (authorization req) then (unauthorized, w)
      else
        (case safePath (process_cwd cfg) (WORKDIR cfg) (query_path req) of
           Inl e \<Rightarrow> (\<lparr>status = 400, body = ErrorBody (ErrorMessage (error_message e))\<rparr>, w)
         | Inr filePath \<Rightarrow>
             (let (found, w1) = fileExists cfg filePath w
              in if \<not> found
                 then (\<lparr>status = 404, body = ErrorBody (ErrorMessage ''File not found'')\<rparr>, w1)
                 else
                   (let (st, w2) = getFileStats cfg filePath w1
                    in case st of
                         None \<Rightarrow> (\<lparr>status = 400, body = ErrorBody TypeError\<rparr>, w2)
                       | Some s \<Rightarrow>
                           (let removed =
                                  (if isDirectory s
                                   then (fs_rm (files w2) (segments_of (process_cwd cfg) filePath)
                                           (query_recursive req = Some ''true'') True,
                                         logged (FsRm filePath) w2)
                                   else (fs_unlink (files w2) (segments_of (process_cwd cfg) filePath),
                                         logged (FsUnlink filePath) w2))
                            in case removed of
                                 (Inl e, w3) \<Rightarrow> (\<lparr>status = 400, body = ErrorBody (FsError e)\<rparr>, w3)
                               | (Inr fs3, w3) \<Rightarrow>
                                   (\<lparr>status = 200, body = DeletedBody (query_path req)\<rparr>,
                                    w3\<lparr>files := fs3\<rparr>))))))"

text \<open>\<open>GET /api/ls\<close>: list a directory; the path defaults to \<open>.\<close>.\<close>

fun ls_entries :: "config \<Rightarrow> string \<Rightarrow> bool \<Rightarrow> dirent list \<Rightarrow> world \<Rightarrow> item list \<times> world" where
  "ls_entries cfg dirPath detailed [] w = ([], w)"
| "ls_entries cfg dirPath detailed (entry # entries) w =
     (let entryPath = path_join [dirPath, entry_name entry];
          (entryStats, w1) = (if detailed then getFileStats cfg entryPath w else (None, w));
          it = \<lparr>item_name = entry_name entry,
                 item_type = (if entry_isDirectory entry then ''dir'' else ''file''),
                 item_size = map_option stats_size entryStats\<rparr>;
          (items, w2) = ls_entries cfg dirPath detailed entries w1
      in (it # items, w2))"

definition get_api_ls :: "config \<Rightarrow> request \<Rightarrow> world \<Rightarrow> response \<times> world" where
  "get_api_ls cfg req w =
     (if \<not> assertAuth cfg (authorization req) then (unauthorized, w)
      else
        (let given = (case query_path req of None \<Rightarrow> ''.'' | Some q \<Rightarrow> if q = [] then ''.'' else q)
         in case safePath (process_cwd cfg) (WORKDIR cfg) (Some given) of
              Inl e \<Rightarrow> (\<lparr>status = 400, body = ErrorBody (ErrorMessage (error_message e))\<rparr>, w)
            | Inr dirPath \<Rightarrow>
                (let (found, w1) = fileExists cfg dirPath w
                 in if \<not> found
                    then (\<lparr>status = 404, body = ErrorBody (ErrorMessage ''Directory not found'')\<rparr>, w1)
                    else
                      (let (st, w2) = getFileStats cfg dirPath w1
                       in case st of
                            None \<Rightarrow> (\<lparr>status = 400, body = ErrorBody TypeError\<rparr>, w2)
                          | Some s \<Rightarrow>
                              if \<not> isDirectory s
                              then (\<lparr>status = 400,
                                     body = ErrorBody (ErrorMessage ''Path is not a directory'')\<rparr>, w2)
                              else
                                (let w3 = logged (FsReaddir dirPath) w2
                                 in case fs_readdir (files w2) (segments_of (process_cwd cfg) dirPath) of
                                      Inl e \<Rightarrow> (\<lparr>status = 400, body = ErrorBody (FsError e)\<rparr>, w3)
                                    | Inr entries \<Rightarrow>
                                        (let (items, w4) =
                                               ls_entries cfg dirPath (query_detailed req = Some ''true'')
                                                 entries w3
                                         in (\<lparr>status = 200, body = ListingBody given items\<rparr>, w4)))))))"

text \<open>\<open>POST /api/mkdir\<close>; \<open>recursive\<close> defaults to true.\<close>

definition post_api_mkdir :: "config \<Rightarrow> request \<Rightarrow> world \<Rightarrow> response \<times> world" where
  "post_api_mkdir cfg req w =
     (if \<not> assertAuth cfg (authorization req) then (unauthorized, w)
      else
        (case body_path req of
           None \<Rightarrow> (\<lparr>status = 400, body = ErrorBody (ErrorMessage ''Path is required'')\<rparr>, w)
         | Some dir \<Rightarrow>
             if dir = []
             then (\<lparr>status = 400, body = ErrorBody (ErrorMessage ''Path is required'')\<rparr>, w)
             else
               (case safePath (process_cwd cfg) (WORKDIR cfg) (Some dir) of
                  Inl e \<Rightarrow> (\<lparr>status = 400, body = ErrorBody (ErrorMessage (error_message e))\<rparr>, w)
                | Inr dirPath \<Rightarrow>
                    (let recursive = (case body_recursive req of None \<Rightarrow> True | Some b \<Rightarrow> b);
                         w1 = logged (FsMkdir dirPath) w
                     in case fs_mkdir (files w) (segments_of (process_cwd cfg) dirPath) recursive of
                          Inl e \<Rightarrow> (\<lparr>status = 400, body = ErrorBody (FsError e)\<rparr>, w1)
                        | Inr fs1 \<Rightarrow> (\<lparr>status = 200, body = MadeBody dir\<rparr>, w1\<lparr>files := fs1\<rparr>)))))"

text \<open>\<open>GET /api/stat\<close>.\<close>

definition get_api_stat :: "config \<Rightarrow> request \<Rightarrow> world \<Rightarrow> response \<times> world" where
  "get_api_stat cfg req w =
     (if \<not> assertAuth cfg (authorization req) then (unauthorized, w)
      else
        (case safePath (process_cwd cfg) (WORKDIR cfg) (query_path req) of
           Inl e \<Rightarrow> (\<lparr>status = 400, body = ErrorBody (ErrorMessage (error_message e))\<rparr>, w)
         | Inr filePath \<Rightarrow>
             (let (found, w1) = fileExists cfg filePath w
              in if \<not> found
                 then (\<lparr>status = 404, body = ErrorBody (ErrorMessage ''Path not found'')\<rparr>, w1)
                 else
                   (let (st, w2) = getFileStats cfg filePath w1
                    in (\<lparr>status = 200, body = StatBody (query_path req) st\<rparr>, w2)))))"

text \<open>
  \<open>GET /api/search\<close>. \<open>searchRecursive\<close> only reads directories, so it is given the
  file system and returns what it found and the calls it made. The number of levels
  it may still enter stands for \<open>maxDepth\<close> and \<open>currentDepth\<close>: it is
  \<open>maxDepth + 1 - currentDepth\<close>, six at the start. An error of \<open>fs.readdir\<close> is
  caught and ignored. The path of a result is the joined path here; the source hands
  it to \<open>path.relative(WORKDIR, ...)\<close>, which is not modelled.
\<close>

fun searchRecursive ::
    "config \<Rightarrow> filesystem \<Rightarrow> string \<Rightarrow> string \<Rightarrow> nat \<Rightarrow> search_result list \<times> fs_call list"
  and search_entries ::
    "config \<Rightarrow> filesystem \<Rightarrow> string \<Rightarrow> string \<Rightarrow> nat \<Rightarrow> dirent list \<Rightarrow> search_result list \<times> fs_call list"
where
  "searchRecursive cfg fs query dir 0 = ([], [])"
| "searchRecursive cfg fs query dir (Suc levels) =
     (case fs_readdir fs (segments_of (process_cwd cfg) dir) of
        Inl e \<Rightarrow> ([], [FsReaddir dir])
      | Inr entries \<Rightarrow>
          (let (found, made) = search_entries cfg fs query dir levels entries
           in (found, FsReaddir dir # made)))"
| "search_entries cfg fs query dir levels [] = ([], [])"
| "search_entries cfg fs query dir levels (entry # entries) =
     (let hit =
            (if sublist (toLowerCase query) (toLowerCase (entry_name entry))
             then [\<lparr>result_name = entry_name entry,
                     result_path = path_join [dir, entry_name entry],
                     result_type = (if entry_isDirectory entry then ''dir'' else ''file'')\<rparr>]
             else []);
          (below, made1) =
            (if entry_isDirectory entry \<and> \<not> prefix ''.'' (entry_name entry)
             then searchRecursive cfg fs query (path_join [dir, entry_name entry]) levels
             else ([], []));
          (others, made2) = search_entries cfg fs query dir levels entries
      in (hit @ below @ others, made1 @ made2))"

definition get_api_search :: "config \<Rightarrow> request \<Rightarrow> world \<Rightarrow> response \<times> world" where
  "get_api_search cfg req w =
     (if \<not> assertAuth cfg (authorization req) then (unauthorized, w)
      else
        (case query_query req of
           None \<Rightarrow> (\<lparr>status = 400, body = ErrorBody (ErrorMessage ''Query is required'')\<rparr>, w)
         | Some query \<Rightarrow>
             if query = []
             then (\<lparr>status = 400, body = ErrorBody (ErrorMessage ''Query is required'')\<rparr>, w)
             else
               (let searchPath = (case query_path req of None \<Rightarrow> ''.'' | Some q \<Rightarrow> q)
                in case safePath (process_cwd cfg) (WORKDIR cfg) (Some searchPath) of
                     Inl e \<Rightarrow> (\<lparr>status = 400, body = ErrorBody (ErrorMessage (error_message e))\<rparr>, w)
                   | Inr dirPath \<Rightarrow>
                       (let (found, made) = searchRecursive cfg (files w) query dirPath 6
                        in (\<lparr>status = 200, body = SearchBody query found (length found)\<rparr>,
                            w\<lparr>calls := calls w @ made\<rparr>)))))"

text \<open>The routes of the agent and the handler of each.\<close>

datatype route =
    GET_health
  | GET_api_files
  | POST_api_files
  | PUT_api_files
  | DELETE_api_files
  | GET_api_ls
  | POST_api_mkdir
  | GET_api_stat
  | GET_api_search

fun handle :: "config \<Rightarrow> route \<Rightarrow> request \<Rightarrow> world \<Rightarrow> response \<times> world" where
  "handle cfg GET_health req w = get_health cfg req w"
| "handle cfg GET_api_files req w = get_api_files cfg req w"
| "handle cfg POST_api_files req w = post_api_files cfg req w"
| "handle cfg PUT_api_files req w = put_api_files cfg req w"
| "handle cfg DELETE_api_files req w = delete_api_files cfg req w"
| "handle cfg GET_api_ls req w = get_api_ls cfg req w"
| "handle cfg POST_api_mkdir req w = post_api_mkdir cfg req w"
| "handle cfg GET_api_stat req w = get_api_stat cfg req w"
| "handle cfg GET_api_search req w = get_api_search cfg req w"

section \<open>The second server: \<open>ProjectManager\<close> and its routes\<close>

text \<open>
  The repository holds a second HTTP server: a class \<open>ProjectManager\<close> (file
  operations and commands below \<open>basePath\<close>) and the Express routes that call it, on a
  manager built with \<open>new ProjectManager('../')\<close>. A method that throws
  \<open>Error("Failed to ...")\<close> returns the error here. Of the methods, those the
  claims are about are modelled: \<open>createFile\<close>, \<open>readFile\<close>, \<open>updateFile\<close>,
  \<open>deletePath\<close>, \<open>getStats\<close>, \<open>runCommand\<close> and \<open>runCommandStream\<close>.
\<close>

record project_manager =
  basePath :: string
  manager_cwd :: string

record file_result =
  file_success :: bool
  file_message :: string
  file_path :: string

definition createFile ::
  "project_manager \<Rightarrow> string \<Rightarrow> string \<Rightarrow> world \<Rightarrow> (fs_error + file_result) \<times> world" where
  "createFile pm filePath content w =
     (let fullPath = path_join [basePath pm, filePath];
          w1 = logged (FsMkdir (path_dirname fullPath)) w
      in case fs_mkdir (files w) (segments_of (manager_cwd pm) (path_dirname fullPath)) True of
           Inl e \<Rightarrow> (Inl e, w1)
         | Inr fs1 \<Rightarrow>
             (let w2 = logged (FsWriteFile fullPath) (w1\<lparr>files := fs1\<rparr>)
              in case fs_writeFile fs1 (segments_of (manager_cwd pm) fullPath) content of
                   Inl e \<Rightarrow> (Inl e, w2)
                 | Inr fs2 \<Rightarrow>
                     (Inr \<lparr>file_success = True, file_message = ''File created: '' @ filePath,
                           file_path = fullPath\<rparr>, w2\<lparr>files := fs2\<rparr>)))"

record read_result =
  read_success :: bool
  read_content :: string
  read_path :: string

definition readFile ::
  "project_manager \<Rightarrow> string \<Rightarrow> world \<Rightarrow> (fs_error + read_result) \<times> world" where
  "readFile pm filePath w =
     (let fullPath = path_join [basePath pm, filePath];
          w1 = logged (FsReadFile fullPath) w
      in case fs_readFile (files w) (segments_of (manager_cwd pm) fullPath) of
           Inl e \<Rightarrow> (Inl e, w1)
         | Inr content \<Rightarrow>
             (Inr \<lparr>read_success = True, read_content = content, read_path = fullPath\<rparr>, w1))"

definition updateFile ::
  "project_manager \<Rightarrow> string \<Rightarrow> string \<Rightarrow> world \<Rightarrow> (fs_error + file_result) \<times> world" where
  "updateFile pm filePath content w =
     (let fullPath = path_join [basePath pm, filePath];
          w1 = logged (FsWriteFile fullPath) w
      in case fs_writeFile (files w) (segments_of (manager_cwd pm) fullPath) content of
           Inl e \<Rightarrow> (Inl e, w1)
         | Inr fs1 \<Rightarrow>
             (Inr \<lparr>file_success = True, file_message = ''File updated: '' @ filePath,
                   file_path = fullPath\<rparr>, w1\<lparr>files := fs1\<rparr>))"

text \<open>\<open>deletePath\<close>: a directory is always removed with all that is below it.\<close>

record delete_result =
  delete_success :: bool
  delete_message :: string

definition deletePath ::
  "project_manager \<Rightarrow> string \<Rightarrow> world \<Rightarrow> (fs_error + delete_result) \<times> world" where
  "deletePath pm targetPath w =
     (let fullPath = path_join [basePath pm, targetPath];
          w1 = logged (FsStat fullPath) w
      in case fs_stat (files w) (segments_of (manager_cwd pm) fullPath) of
           Inl e \<Rightarrow> (Inl e, w1)
         | Inr s \<Rightarrow>
             if isDirectory s then
               (let w2 = logged (FsRm fullPath) w1
                in case fs_rm (files w) (segments_of (manager_cwd pm) fullPath) True True of
                     Inl e \<Rightarrow> (Inl e, w2)
                   | Inr fs1 \<Rightarrow>
                       (Inr \<lparr>delete_success = True,
                             delete_message = ''Directory deleted: '' @ targetPath\<rparr>,
                        w2\<lparr>files := fs1\<rparr>))
             else
               (let w2 = logged (FsUnlink fullPath) w1
                in case fs_unlink (files w) (segments_of (manager_cwd pm) fullPath) of
                     Inl e \<Rightarrow> (Inl e, w2)
                   | Inr fs1 \<Rightarrow>
                       (Inr \<lparr>delete_success = True,
                             delete_message = ''File deleted: '' @ targetPath\<rparr>,
                        w2\<lparr>files := fs1\<rparr>)))"

text \<open>\<open>getStats\<close>: a missing path is no error (\<open>exists: false\<close>, here \<open>None\<close>).\<close>

definition getStats ::
  "project_manager \<Rightarrow> string \<Rightarrow> world \<Rightarrow> (string \<times> stats option) \<times> world" where
  "getStats pm targetPath w =
     (let fullPath = path_join [basePath pm, targetPath];
          w1 = logged (FsStat fullPath) w
      in case fs_stat (files w) (segments_of (manager_cwd pm) fullPath) of
           Inl e \<Rightarrow> ((fullPath, None), w1)
         | Inr s \<Rightarrow> ((fullPath, Some s), w1))"

subsection \<open>Commands\<close>

text \<open>
  \<open>child_process.exec\<close>, \<open>child_process.spawn\<close> and \<open>String.prototype.trim\<close> belong to
  Node and to the language, not to the repository, and what a command does belongs to
  the operating system. They are parameters: every statement below holds for whatever
  they do. The options objects carry the properties the sources set or a caller of the
  routes can set; \<open>None\<close> is \<open>undefined\<close>.
\<close>

record exec_options =
  exec_cwd :: "string option"
  exec_timeout :: "nat option"

record spawn_options =
  spawn_cwd :: "string option"
  spawn_shell :: bool
  spawn_timeout :: "nat option"

text \<open>
  A \<open>code\<close> as JavaScript has it: \<open>null\<close>, a number (the exit code of a process, or
  the negative number of a system error) or a string (the name of a system error).
\<close>

datatype code_value = CodeNull | CodeNumber int | CodeText string

text \<open>
  The error the promisified \<open>exec\<close> rejects with, as far as the sources read it
  (\<open>killed\<close> and \<open>signal\<close> are there although the sources do not), and the two ways
  the promise settles.
\<close>

record exec_error =
  err_code :: code_value
  err_killed :: bool
  err_signal :: "string option"
  err_stdout :: "string option"
  err_stderr :: "string option"
  err_message :: string

datatype exec_outcome = ExecOk string string | ExecFailed exec_error

text \<open>
  What happens to a spawned process, as far as \<open>runCommandStream\<close> listens: the first
  of its \<open>close\<close> event (with the exit code, \<open>null\<close> when a signal ended the process,
  and everything the \<open>data\<close> events brought before) and its \<open>error\<close> event (with the
  message of the error), or neither of them, ever.
\<close>

datatype spawn_outcome = Closed code_value string string | Errored string | Pending

text \<open>
  The runtime: \<open>exec\<close> (promisified; \<open>None\<close>: the promise never settles), \<open>spawn\<close> and
  \<open>trim\<close>.
\<close>

record runtime =
  exec :: "string \<Rightarrow> exec_options \<Rightarrow> exec_outcome option"
  spawn :: "string \<Rightarrow> spawn_options \<Rightarrow> spawn_outcome"
  trim :: "string \<Rightarrow> string"

text \<open>
  The \<open>options\<close> argument of the two methods: each property is absent (\<open>None\<close>), or
  present with a value that may be \<open>undefined\<close> (\<open>Some None\<close>). Spreading the argument
  over the defaults lets a present property win, \<open>undefined\<close> included.
\<close>

record run_options =
  opt_cwd :: "string option option"
  opt_timeout :: "nat option option"

record command_result =
  success :: bool
  command :: string
  stdout :: string
  stderr :: string
  exitCode :: code_value

text \<open>The working directory after the spread: \<open>{cwd: this.basePath, ...options}\<close>.\<close>

definition merged_cwd :: "project_manager \<Rightarrow> run_options \<Rightarrow> string option" where
  "merged_cwd pm options = (case opt_cwd options of None \<Rightarrow> Some (basePath pm) | Some v \<Rightarrow> v)"

text \<open>
  The \<open>defaultOptions\<close> of \<open>runCommand\<close>,
  \<open>{cwd: this.basePath, timeout: 30000, ...options}\<close>, and those of \<open>runCommandStream\<close>,
  \<open>{cwd: this.basePath, shell: true, ...options}\<close>.
\<close>

definition runCommand_options :: "project_manager \<Rightarrow> run_options \<Rightarrow> exec_options" where
  "runCommand_options pm options =
     \<lparr>exec_cwd = merged_cwd pm options,
      exec_timeout = (case opt_timeout options of None \<Rightarrow> Some 30000 | Some v \<Rightarrow> v)\<rparr>"

definition runCommandStream_options :: "project_manager \<Rightarrow> run_options \<Rightarrow> spawn_options" where
  "runCommandStream_options pm options =
     \<lparr>spawn_cwd = merged_cwd pm options, spawn_shell = True,
      spawn_timeout = (case opt_timeout options of None \<Rightarrow> None | Some v \<Rightarrow> v)\<rparr>"

text \<open>
  \<open>runCommand\<close> awaits \<open>exec\<close> and turns a rejection into a result:
  \<open>error.stdout?.toString().trim() || ''\<close>,
  \<open>error.stderr?.toString().trim() || error.message\<close> and \<open>error.code || 1\<close>, where \<open>null\<close>,
  \<open>0\<close> and the empty string are falsy. It never throws; it returns nothing (\<open>None\<close>) as
  long as \<open>exec\<close> does not settle.
\<close>

fun code_or_one :: "code_value \<Rightarrow> code_value" where
  "code_or_one CodeNull = CodeNumber 1"
| "code_or_one (CodeNumber n) = (if n = 0 then CodeNumber 1 else CodeNumber n)"
| "code_or_one (CodeText s) = (if s = [] then CodeNumber 1 else CodeText s)"

definition runCommand ::
  "project_manager \<Rightarrow> runtime \<Rightarrow> string \<Rightarrow> run_options \<Rightarrow> command_result option" where
  "runCommand pm rt cmd options =
     (case exec rt cmd (runCommand_options pm options) of
        None \<Rightarrow> None
      | Some (ExecOk out err) \<Rightarrow>
          Some \<lparr>success = True, command = cmd, stdout = trim rt out, stderr = trim rt err,
                exitCode = CodeNumber 0\<rparr>
      | Some (ExecFailed error) \<Rightarrow>
          Some \<lparr>success = False, command = cmd,
                stdout = (case err_stdout error of None \<Rightarrow> [] | Some s \<Rightarrow> trim rt s),
                stderr = (case err_stderr error of
                            None \<Rightarrow> err_message error
                          | Some s \<Rightarrow> if trim rt s \<noteq> [] then trim rt s else err_message error),
                exitCode = code_or_one (err_code error)\<rparr>)"

text \<open>
  \<open>runCommandStream\<close> returns a promise: resolved with a result on \<open>close\<close>, rejected
  with an object that is not an \<open>Error\<close> on \<open>error\<close>, pending (\<open>None\<close>) as long as
  neither event comes. It sets no timer and sends no signal.
\<close>

record stream_failure =
  failed_command :: string
  failed_error :: string
  failed_exitCode :: int

datatype stream_outcome = Resolved command_result | Rejected stream_failure

definition runCommandStream ::
  "project_manager \<Rightarrow> runtime \<Rightarrow> string \<Rightarrow> run_options \<Rightarrow> stream_outcome option" where
  "runCommandStream pm rt cmd options =
     (case spawn rt cmd (runCommandStream_options pm options) of
        Pending \<Rightarrow> None
      | Closed code out err \<Rightarrow>
          Some (Resolved \<lparr>success = (code = CodeNumber 0), command = cmd, stdout = trim rt out,
                          stderr = trim rt err, exitCode = code\<rparr>)
      | Errored message \<Rightarrow>
          Some (Rejected \<lparr>failed_command = cmd, failed_error = message, failed_exitCode = 1\<rparr>))"

subsection \<open>The routes\<close>

text \<open>
  The body of a request to the second server; the \<open>Authorization\<close> header is there
  for the sake of the statements below: no route reads it.
\<close>

record manager_request =
  manager_authorization :: "string option"
  given_path :: "string option"
  given_content :: "string option"
  given_files :: "string list option"
  given_command :: "string option"
  given_cwd :: "string option"
  given_stream :: bool

datatype manager_payload =
    Failed failure
  | FailedWithoutMessage
  | FileDone file_result
  | ReadDone "(string \<times> (fs_error + read_result)) list"
  | DeleteDone delete_result
  | CommandDone command_result

record manager_response =
  manager_status :: nat
  manager_body :: manager_payload

text \<open>\<open>POST /api/files\<close>: read the files of a list, each failure kept with its file.\<close>

fun read_each ::
  "project_manager \<Rightarrow> string list \<Rightarrow> world \<Rightarrow> (string \<times> (fs_error + read_result)) list \<times> world" where
  "read_each pm [] w = ([], w)"
| "read_each pm (filePath # others) w =
     (let (r, w1) = readFile pm filePath w;
          (rs, w2) = read_each pm others w1
      in ((filePath, r) # rs, w2))"

definition post_files :: "project_manager \<Rightarrow> manager_request \<Rightarrow> world \<Rightarrow> manager_response \<times> world" where
  "post_files pm req w =
     (case given_files req of
        None \<Rightarrow> (\<lparr>manager_status = 400,
                   manager_body = Failed (ErrorMessage ''files must be an array of file paths'')\<rparr>, w)
      | Some paths \<Rightarrow>
          (let (rs, w1) = read_each pm paths w
           in (\<lparr>manager_status = 200, manager_body = ReadDone rs\<rparr>, w1)))"

text \<open>
  \<open>POST /api/files/update\<close>; a missing \<open>path\<close> or \<open>content\<close> makes \<open>path.join\<close>,
  respectively \<open>fs.writeFile\<close>, throw a \<open>TypeError\<close>, which the route answers with 500.
\<close>

definition post_files_update ::
  "project_manager \<Rightarrow> manager_request \<Rightarrow> world \<Rightarrow> manager_response \<times> world" where
  "post_files_update pm req w =
     (case given_path req of
        None \<Rightarrow> (\<lparr>manager_status = 500, manager_body = Failed TypeError\<rparr>, w)
      | Some p \<Rightarrow>
          (case given_content req of
             None \<Rightarrow> (\<lparr>manager_status = 500, manager_body = Failed TypeError\<rparr>,
                       logged (FsWriteFile (path_join [basePath pm, p])) w)
           | Some content \<Rightarrow>
               (case updateFile pm p content w of
                  (Inl e, w1) \<Rightarrow> (\<lparr>manager_status = 500, manager_body = Failed (FsError e)\<rparr>, w1)
                | (Inr r, w1) \<Rightarrow> (\<lparr>manager_status = 200, manager_body = FileDone r\<rparr>, w1))))"

text \<open>\<open>POST /api/files/delete\<close>.\<close>

definition post_files_delete ::
  "project_manager \<Rightarrow> manager_request \<Rightarrow> world \<Rightarrow> manager_response \<times> world" where
  "post_files_delete pm req w =
     (case given_path req of
        None \<Rightarrow> (\<lparr>manager_status = 500, manager_body = Failed TypeError\<rparr>, w)
      | Some p \<Rightarrow>
          (case deletePath pm p w of
             (Inl e, w1) \<Rightarrow> (\<lparr>manager_status = 500, manager_body = Failed (FsError e)\<rparr>, w1)
           | (Inr r, w1) \<Rightarrow> (\<lparr>manager_status = 200, manager_body = DeleteDone r\<rparr>, w1)))"

text \<open>
  \<open>POST /api/shell\<close>. A command that is missing or empty is answered with 400. The
  result of the method is the body of the answer. What \<open>runCommandStream\<close> rejects with
  has no \<open>message\<close>, so the answer of the \<open>catch\<close> is 500 with \<open>success: false\<close> and no
  \<open>error\<close>. There is no answer (\<open>None\<close>) as long as the method does not return.
\<close>

definition post_shell ::
  "project_manager \<Rightarrow> runtime \<Rightarrow> manager_request \<Rightarrow> manager_response option" where
  "post_shell pm rt req =
     (case given_command req of
        None \<Rightarrow> Some \<lparr>manager_status = 400,
                       manager_body = Failed (ErrorMessage ''command is required'')\<rparr>
      | Some cmd \<Rightarrow>
          if cmd = []
          then Some \<lparr>manager_status = 400,
                     manager_body = Failed (ErrorMessage ''command is required'')\<rparr>
          else if given_stream req
          then (case runCommandStream pm rt cmd \<lparr>opt_cwd = Some (given_cwd req), opt_timeout = None\<rparr> of
                  None \<Rightarrow> None
                | Some (Resolved result) \<Rightarrow>
                    Some \<lparr>manager_status = 200, manager_body = CommandDone result\<rparr>
                | Some (Rejected error) \<Rightarrow>
                    Some \<lparr>manager_status = 500, manager_body = FailedWithoutMessage\<rparr>)
          else map_option (\<lambda>result. \<lparr>manager_status = 200, manager_body = CommandDone result\<rparr>)
                 (runCommand pm rt cmd \<lparr>opt_cwd = Some (given_cwd req), opt_timeout = None\<rparr>))"

section \<open>Examples\<close>

text \<open>
  A configuration and a small file system for the examples: the working directory
  \<open>/home/user/work\<close> with \<open>src/app.js\<close> in it, and \<open>/etc/passwd\<close> outside it. The second
  server runs in \<open>/home/user/work/.codespace-agent\<close>, so that its \<open>basePath\<close>, \<open>../\<close>,
  is the same working directory.
\<close>

definition example_config :: config where
  "example_config =
     \<lparr>WORKDIR = ''/home/user/work'', AGENT_TOKEN = ''secrets'', ALLOWED_EXTENSIONS = None,
      platform = ''linux'', process_cwd = ''/home/user/work/.codespace-agent''\<rparr>"

definition example_files :: filesystem where
  "example_files =
     [([''home''], Dir), ([''home'', ''user''], Dir), ([''home'', ''user'', ''work''], Dir),
      ([''home'', ''user'', ''work'', ''src''], Dir),
      ([''home'', ''user'', ''work'', ''src'', ''app.js''], File ''let x = 1''),
      ([''etc''], Dir), ([''etc'', ''passwd''], File ''root:x:0:0'')]"

definition example_world :: world where
  "example_world = \<lparr>files = example_files, calls = []\<rparr>"

definition example_manager :: project_manager where
  "example_manager = \<lparr>basePath = ''../'', manager_cwd = ''/home/user/work/.codespace-agent''\<rparr>"

definition no_request :: request where
  "no_request =
     \<lparr>authorization = None, query_path = None, query_recursive = None, query_detailed = None,
      query_query = None, body_path = None, body_content = None, body_createDirs = None,
      body_recursive = None\<rparr>"

definition no_manager_request :: manager_request where
  "no_manager_request =
     \<lparr>manager_authorization = None, given_path = None, given_content = None, given_files = None,
      given_command = None, given_cwd = None, given_stream = False\<rparr>"

text \<open>
  A runtime for the examples. Its \<open>trim\<close> removes the white space of ASCII at both
  ends, which is what \<open>String.prototype.trim\<close> does to a text that holds no other
  white space. In it, \<open>id\<close> prints a line and exits with 0, whatever the options.
  \<open>sleep 100\<close> runs for 100 seconds and exits with 0, unless a timeout ends it before:
  then \<open>exec\<close> rejects with the error Node makes for a process it has sent \<open>SIGTERM\<close>
  (\<open>killed\<close>, no \<open>code\<close>), and \<open>spawn\<close> reports a \<open>close\<close> without a code.
\<close>

definition is_space :: "char \<Rightarrow> bool" where
  "is_space c = ((of_char c :: nat) \<in> {9, 10, 11, 12, 13, 32})"

definition ascii_trim :: "string \<Rightarrow> string" where
  "ascii_trim s = rev (dropWhile is_space (rev (dropWhile is_space s)))"

definition timed_out :: "string \<Rightarrow> exec_error" where
  "timed_out cmd =
     \<lparr>err_code = CodeNull, err_killed = True, err_signal = Some ''SIGTERM'',
      err_stdout = Some [], err_stderr = Some [],
      err_message = ''Command failed: '' @ cmd @ [CHR 0x0A]\<rparr>"

definition ends_before :: "nat option \<Rightarrow> nat \<Rightarrow> bool" where
  "ends_before timeout ms = (case timeout of None \<Rightarrow> False | Some t \<Rightarrow> 0 < t \<and> t < ms)"

definition example_runtime :: runtime where
  "example_runtime =
     \<lparr>exec = (\<lambda>cmd opts.
         if cmd = ''id'' then Some (ExecOk (''uid=1000'' @ [CHR 0x0A]) [])
         else if cmd = ''sleep 100''
         then (if ends_before (exec_timeout opts) 100000 then Some (ExecFailed (timed_out cmd))
               else Some (ExecOk [] []))
         else None),
      spawn = (\<lambda>cmd opts.
         if cmd = ''id'' then Closed (CodeNumber 0) (''uid=1000'' @ [CHR 0x0A]) []
         else if cmd = ''sleep 100''
         then (if ends_before (spawn_timeout opts) 100000 then Closed CodeNull [] []
               else Closed (CodeNumber 0) [] [])
         else Pending),
      trim = ascii_trim\<rparr>"

text \<open>The path a request hands to each route of the agent.\<close>

fun client_path :: "route \<Rightarrow> request \<Rightarrow> string option" where
  "client_path GET_health req = None"
| "client_path GET_api_files req = query_path req"
| "client_path POST_api_files req = body_path req"
| "client_path PUT_api_files req = body_path req"
| "client_path DELETE_api_files req = query_path req"
| "client_path GET_api_ls req =
     Some (case query_path req of None \<Rightarrow> ''.'' | Some q \<Rightarrow> if q = [] then ''.'' else q)"
| "client_path POST_api_mkdir req = body_path req"
| "client_path GET_api_stat req = query_path req"
| "client_path GET_api_search req = Some (case query_path req of None \<Rightarrow> ''.'' | Some q \<Rightarrow> q)"

text \<open>The entry of the file system a method of \<open>ProjectManager\<close> works on.\<close>

definition manager_key :: "project_manager \<Rightarrow> string \<Rightarrow> string list" where
  "manager_key pm p = segments_of (manager_cwd pm) (path_join [basePath pm, p])"

text \<open>The entry a handler of the agent works on, for a path \<open>safePath\<close> returned.\<close>

definition agent_key :: "config \<Rightarrow> string \<Rightarrow> string list" where
  "agent_key cfg fp = segments_of (process_cwd cfg) fp"

text \<open>
  A path is inside a directory when, as the operating system resolves the two, the
  segments of the directory are the first segments of the path: the path is the
  directory itself or an entry below it.
\<close>

definition inside :: "string \<Rightarrow> string \<Rightarrow> string \<Rightarrow> bool" where
  "inside cwd dir p = prefix (segments_of cwd dir) (segments_of cwd p)"

text \<open>
  A path continues the name of a directory when it follows the directory up to its
  last segment and there holds a longer name that begins with the name of the
  directory: \<open>/home/user/work-evil/x\<close> does so for \<open>/home/user/work\<close>. Such a path is
  not inside the directory, yet the directory is a prefix of it as a string.
\<close>

fun continues_name :: "string list \<Rightarrow> string list \<Rightarrow> bool" where
  "continues_name [] ps = False"
| "continues_name (d # ds) [] = False"
| "continues_name [d] (p # ps) = strict_prefix d p"
| "continues_name (d # e # ds) (p # ps) = (d = p \<and> continues_name (e # ds) ps)"

definition continues :: "string \<Rightarrow> string \<Rightarrow> string \<Rightarrow> bool" where
  "continues cwd dir p = continues_name (segments_of cwd dir) (segments_of cwd p)"

section \<open>Properties\<close>

lemma split_slash_not_Nil: "split_slash s \<noteq> []"
  by (induction s) (auto split: list.splits)

lemma split_slash_no_slash: "s \<in> set (split_slash p) \<Longrightarrow> CHR ''/'' \<notin> set s"
  by (induction p arbitrary: s) (auto split: if_splits list.splits)

lemma split_slash_plain: "CHR ''/'' \<notin> set s \<Longrightarrow> split_slash s = [s]"
  by (induction s) auto

lemma split_slash_append:
  "CHR ''/'' \<notin> set s \<Longrightarrow> split_slash (s @ CHR ''/'' # t) = s # split_slash t"
  by (induction s) (auto split: list.splits)

lemma split_join_slash:
  "segs \<noteq> [] \<Longrightarrow> \<forall>s \<in> set segs. CHR ''/'' \<notin> set s \<Longrightarrow> split_slash (join_slash segs) = segs"
  by (induction segs rule: join_slash.induct) (auto simp: split_slash_plain split_slash_append)

lemma normalize_segments_clean:
  "list_all clean_segment res \<Longrightarrow> list_all (\<lambda>s. CHR ''/'' \<notin> set s) segs \<Longrightarrow>
   list_all clean_segment (normalize_segments False res segs)"
proof (induction segs arbitrary: res)
  case Nil
  then show ?case by (simp add: list_all_iff)
next
  case (Cons s ss)
  show ?case
  proof (cases "s = [] \<or> s = ''.''")
    case True
    then show ?thesis using Cons by simp
  next
    case False
    show ?thesis
    proof (cases "s = ''..''")
      case True
      have "t \<noteq> ''..''" if "clean_segment t" for t
        using that by (auto simp: clean_segment_def)
      with True show ?thesis using Cons by (cases res) simp_all
    next
      case nd: False
      with False Cons.prems have "clean_segment s"
        by (simp add: clean_segment_def)
      then show ?thesis using False nd Cons by simp
    qed
  qed
qed

lemma normalizeString_clean:
  "list_all clean_segment (normalize_segments False [] (split_slash p))"
  by (rule normalize_segments_clean) (simp_all add: list_all_iff split_slash_no_slash)

lemma normalized_absolute_join:
  assumes "list_all clean_segment segs"
  shows "normalized_absolute (CHR ''/'' # join_slash segs)"
proof (cases segs)
  case Nil
  then show ?thesis by (simp add: normalized_absolute_def)
next
  case (Cons a as)
  with assms have "split_slash (join_slash segs) = segs"
    by (intro split_join_slash) (auto simp: clean_segment_def list_all_iff)
  with assms show ?thesis
    by (simp add: normalized_absolute_def)
qed

lemma resolve_loop_absolute:
  "W \<noteq> [] \<Longrightarrow> hd W = CHR ''/'' \<Longrightarrow> snd (resolve_loop [q, W, cwd] []) = True"
  by simp

lemma path_resolve_absolute_root:
  assumes "W \<noteq> []" "hd W = CHR ''/''"
  shows "normalized_absolute (path_resolve cwd [W, q])"
proof -
  define rl where "rl = resolve_loop [q, W, cwd] []"
  have ab: "snd rl = True"
    unfolding rl_def using assms by (rule resolve_loop_absolute)
  have "path_resolve cwd [W, q] = CHR ''/'' # join_slash (normalize_segments False [] (split_slash (fst rl)))"
    unfolding path_resolve_def normalizeString_def Let_def using ab
    by (simp add: rl_def [symmetric] case_prod_beta del: resolve_loop.simps)
  then show ?thesis
    using normalizeString_clean [of "fst rl"] by (simp add: normalized_absolute_join)
qed

subsection \<open>Joining a directory and the name of an entry\<close>

lemma split_slash_append_slash:
  "split_slash (a @ CHR ''/'' # b) = split_slash a @ split_slash b"
proof (induction a)
  case Nil
  show ?case by simp
next
  case (Cons c a)
  obtain s ss where "split_slash a = s # ss"
    using split_slash_not_Nil [of a] by (cases "split_slash a") auto
  with Cons show ?case by simp
qed

lemma join_split_slash: "join_slash (split_slash s) = s"
proof (induction s)
  case Nil
  show ?case by simp
next
  case (Cons c s)
  obtain t ts where ts: "split_slash s = t # ts"
    using split_slash_not_Nil [of s] by (cases "split_slash s") auto
  show ?case
  proof (cases "c = CHR ''/''")
    case True
    with Cons ts show ?thesis by simp
  next
    case False
    with Cons ts show ?thesis by (cases ts) auto
  qed
qed

lemma normalize_segments_clean_id:
  "list_all clean_segment xs \<Longrightarrow> normalize_segments al res xs = rev res @ xs"
  by (induction xs arbitrary: res) (simp_all add: clean_segment_def)

lemma join_slash_snoc:
  "segs \<noteq> [] \<Longrightarrow> join_slash (segs @ [n]) = join_slash segs @ ''/'' @ n"
  by (induction segs rule: join_slash.induct) simp_all

lemma path_join_entry:
  assumes d: "normalized_absolute d" and n: "clean_segment n"
  shows "path_join [d, n] = (if d = ''/'' then ''/'' @ n else d @ ''/'' @ n)"
proof -
  from n have n0: "n \<noteq> []" and nsl: "CHR ''/'' \<notin> set n"
    by (auto simp: clean_segment_def)
  from n0 have "last n \<in> set n"
    by (rule last_in_set)
  with nsl have nl: "last n \<noteq> CHR ''/''"
    by auto
  from d have d0: "d \<noteq> []" and dh: "hd d = CHR ''/''"
    by (auto simp: normalized_absolute_def)
  have j: "path_join [d, n] = path_normalize (d @ ''/'' @ n)"
    using d0 n0 by (simp add: path_join_def)
  have la: "last (d @ ''/'' @ n) \<noteq> CHR ''/''"
    using n0 nl by simp
  have hd: "hd (d @ ''/'' @ n) = CHR ''/''"
    using d0 dh by simp
  show ?thesis
  proof (cases "d = ''/''")
    case True
    have "normalize_segments False [] (split_slash (''//'' @ n)) = [n]"
      using n split_slash_plain [of n] by (simp add: clean_segment_def)
    then have "normalizeString (''//'' @ n) False = n"
      by (simp add: normalizeString_def)
    with True n0 j la hd show ?thesis
      by (simp add: path_normalize_def Let_def)
  next
    case False
    with d obtain t where t: "d = CHR ''/'' # t" and cl: "list_all clean_segment (split_slash t)"
      by (cases d) (auto simp: normalized_absolute_def)
    have sp: "split_slash (d @ ''/'' @ n) = [] # split_slash t @ [n]"
      using t n split_slash_append_slash [of t n] split_slash_plain [of n]
      by (simp add: clean_segment_def)
    have "normalize_segments False [] ([] # split_slash t @ [n]) = split_slash t @ [n]"
      using cl n normalize_segments_clean_id [of "split_slash t @ [n]" False "[]"] by simp
    with sp have "normalizeString (d @ ''/'' @ n) False = join_slash (split_slash t @ [n])"
      by (simp add: normalizeString_def)
    also have "\<dots> = t @ ''/'' @ n"
      using join_slash_snoc [OF split_slash_not_Nil, of t n] join_split_slash [of t] by simp
    finally have ns: "normalizeString (d @ ''/'' @ n) False = t @ ''/'' @ n" .
    from ns have ns': "normalizeString (d @ CHR ''/'' # n) False = t @ CHR ''/'' # n"
      by simp
    have "path_normalize (d @ ''/'' @ n) = ''/'' @ t @ ''/'' @ n"
      using la hd n0 by (simp add: path_normalize_def Let_def ns')
    with j t False show ?thesis by simp
  qed
qed

lemma path_join_entry_normalized:
  assumes d: "normalized_absolute d" and n: "clean_segment n"
  shows "normalized_absolute (path_join [d, n])"
proof (cases "d = ''/''")
  case True
  with path_join_entry [OF d n] have "path_join [d, n] = CHR ''/'' # n" by simp
  with n show ?thesis
    using split_slash_plain [of n] by (simp add: normalized_absolute_def clean_segment_def)
next
  case False
  with d obtain t where t: "d = CHR ''/'' # t" and cl: "list_all clean_segment (split_slash t)"
    by (cases d) (auto simp: normalized_absolute_def)
  from False path_join_entry [OF d n] t have e: "path_join [d, n] = CHR ''/'' # t @ CHR ''/'' # n"
    by simp
  have "split_slash (t @ CHR ''/'' # n) = split_slash t @ [n]"
    using n split_slash_append_slash [of t n] split_slash_plain [of n]
    by (simp add: clean_segment_def)
  with cl n e show ?thesis
    by (simp add: normalized_absolute_def)
qed

lemma path_join_entry_prefix:
  assumes d: "normalized_absolute d" and n: "clean_segment n"
  shows "prefix d (path_join [d, n])"
  using path_join_entry [OF d n] by (simp add: prefix_def)

lemma fs_readdir_clean:
  "fs_readdir fs k = Inr es \<Longrightarrow> list_all (\<lambda>e. clean_segment (entry_name e)) es"
  by (auto simp: fs_readdir_def list_all_iff split: option.splits node.splits)

lemma safePath_normalized:
  "W \<noteq> [] \<Longrightarrow> hd W = CHR ''/'' \<Longrightarrow> safePath cwd W p = Inr fp \<Longrightarrow>
   normalized_absolute fp \<and> prefix W fp"
  by (auto simp: safePath_def Let_def path_resolve_absolute_root split: option.splits if_splits)

subsection \<open>Paths and their segments\<close>

lemma normalize_segments_clean_append:
  "list_all clean_segment xs \<Longrightarrow>
   normalize_segments al res (xs @ ys) = normalize_segments al (rev xs @ res) ys"
  by (induction xs arbitrary: res) (simp_all add: clean_segment_def)

lemma segments_of_normalized:
  assumes d: "normalized_absolute d"
  shows "segments_of cwd d = (if d = ''/'' then [] else split_slash (tl d))"
proof (cases "d = ''/''")
  case True
  then show ?thesis by (simp add: segments_of_def)
next
  case False
  with d obtain t where t: "d = CHR ''/'' # t" and cl: "list_all clean_segment (split_slash t)"
    by (cases d) (auto simp: normalized_absolute_def)
  have sp: "split_slash (d @ ''/'') = [] # split_slash t @ [[]]"
    using t split_slash_append_slash [of t "[]"] by simp
  have "normalize_segments False [] ([] # split_slash t @ [[]]) = split_slash t"
    using normalize_segments_clean_append [OF cl, of False "[]" "[[]]"] by simp
  with sp t False show ?thesis
    by (simp add: segments_of_def)
qed

lemma normalized_absolute_segments:
  assumes d: "normalized_absolute d"
  shows "d = CHR ''/'' # join_slash (segments_of cwd d) \<and> list_all clean_segment (segments_of cwd d)"
proof (cases "d = ''/''")
  case True
  then show ?thesis using segments_of_normalized [OF d, of cwd] by simp
next
  case False
  with d obtain t where t: "d = CHR ''/'' # t" and cl: "list_all clean_segment (split_slash t)"
    by (cases d) (auto simp: normalized_absolute_def)
  with False show ?thesis
    using segments_of_normalized [OF d, of cwd] join_split_slash [of t] by simp
qed

lemma prefix_slash_both:
  assumes "CHR ''/'' \<notin> set w" "CHR ''/'' \<notin> set s"
  shows "prefix (w @ CHR ''/'' # a) (s @ CHR ''/'' # b) \<longleftrightarrow> w = s \<and> prefix a b"
  using assms
proof (induction w arbitrary: s)
  case Nil
  then show ?case by (cases s) auto
next
  case (Cons c w)
  then show ?case by (cases s) auto
qed

lemma prefix_slash_right:
  assumes "CHR ''/'' \<notin> set w"
  shows "prefix w (s @ CHR ''/'' # b) \<longleftrightarrow> prefix w s"
  using assms
proof (induction w arbitrary: s)
  case Nil
  then show ?case by simp
next
  case (Cons c w)
  then show ?case by (cases s) auto
qed

lemma prefix_slash_left:
  assumes "CHR ''/'' \<notin> set s"
  shows "\<not> prefix (w @ CHR ''/'' # a) s"
  using assms
proof (induction w arbitrary: s)
  case Nil
  then show ?case by (cases s) auto
next
  case (Cons c w)
  then show ?case by (cases s) auto
qed

lemma prefix_join_slash:
  assumes "list_all clean_segment dsegs" "list_all clean_segment psegs" "dsegs \<noteq> []"
  shows "prefix (join_slash dsegs) (join_slash psegs) \<longleftrightarrow> prefix dsegs psegs \<or> continues_name dsegs psegs"
  using assms
proof (induction dsegs psegs rule: continues_name.induct)
  case (1 ps)
  then show ?case by simp
next
  case (2 d ds)
  then have "d \<noteq> []" by (simp add: clean_segment_def)
  then have "join_slash (d # ds) \<noteq> []" by (cases ds) auto
  then show ?case by simp
next
  case (3 d p ps)
  then have d: "CHR ''/'' \<notin> set d" and p: "CHR ''/'' \<notin> set p"
    by (simp_all add: clean_segment_def)
  show ?case
  proof (cases ps)
    case Nil
    then show ?thesis by (auto simp: strict_prefix_def)
  next
    case (Cons q qs)
    with d show ?thesis
      using prefix_slash_right [of d p "join_slash (q # qs)"] by (auto simp: strict_prefix_def)
  qed
next
  case (4 d e ds p ps)
  then have d: "CHR ''/'' \<notin> set d" and p: "CHR ''/'' \<notin> set p"
    by (simp_all add: clean_segment_def)
  show ?case
  proof (cases ps)
    case Nil
    with p show ?thesis
      using prefix_slash_left [of p d "join_slash (e # ds)"] by simp
  next
    case (Cons q qs)
    from 4 Cons have ih: "prefix (join_slash (e # ds)) (join_slash ps) \<longleftrightarrow>
        prefix (e # ds) ps \<or> continues_name (e # ds) ps"
      by simp
    from d p Cons ih show ?thesis
      using prefix_slash_both [of d p "join_slash (e # ds)" "join_slash (q # qs)"] by auto
  qed
qed

lemma prefix_normalized:
  assumes W: "normalized_absolute W" and r: "normalized_absolute r"
  shows "prefix W r \<longleftrightarrow> inside cwd W r \<or> continues cwd W r"
proof -
  from normalized_absolute_segments [OF W, of cwd]
  have We: "W = CHR ''/'' # join_slash (segments_of cwd W)" and Wc: "list_all clean_segment (segments_of cwd W)"
    by simp_all
  from normalized_absolute_segments [OF r, of cwd]
  have re: "r = CHR ''/'' # join_slash (segments_of cwd r)" and rc: "list_all clean_segment (segments_of cwd r)"
    by simp_all
  show ?thesis
  proof (cases "segments_of cwd W = []")
    case True
    with We re have "prefix W r"
      by (metis Cons_prefix_Cons join_slash.simps(1) prefix_bot.extremum)
    with True show ?thesis by (simp add: inside_def)
  next
    case False
    have "prefix W r \<longleftrightarrow> prefix (join_slash (segments_of cwd W)) (join_slash (segments_of cwd r))"
      using We re by (metis Cons_prefix_Cons)
    with prefix_join_slash [OF Wc rc False] show ?thesis
      by (simp add: inside_def continues_def)
  qed
qed

lemma segments_of_entry:
  assumes d: "normalized_absolute d" and n: "clean_segment n"
  shows "segments_of cwd (path_join [d, n]) = segments_of cwd d @ [n]"
proof -
  from n have n0: "n \<noteq> []" and nsl: "CHR ''/'' \<notin> set n"
    by (auto simp: clean_segment_def)
  have j: "normalized_absolute (path_join [d, n])"
    using d n by (rule path_join_entry_normalized)
  show ?thesis
  proof (cases "d = ''/''")
    case True
    with path_join_entry [OF d n] have e: "path_join [d, n] = CHR ''/'' # n" by simp
    with n0 have "segments_of cwd (path_join [d, n]) = split_slash n"
      using segments_of_normalized [OF j, of cwd] by simp
    with True nsl show ?thesis
      using segments_of_normalized [OF d, of cwd] by (simp add: split_slash_plain)
  next
    case False
    with d obtain t where t: "d = CHR ''/'' # t"
      by (cases d) (auto simp: normalized_absolute_def)
    from False path_join_entry [OF d n] t have e: "path_join [d, n] = CHR ''/'' # t @ CHR ''/'' # n"
      by simp
    have "split_slash (t @ CHR ''/'' # n) = split_slash t @ [n]"
      using nsl split_slash_append_slash [of t n] by (simp add: split_slash_plain)
    with e have "segments_of cwd (path_join [d, n]) = split_slash t @ [n]"
      using segments_of_normalized [OF j, of cwd] by simp
    with False t show ?thesis
      using segments_of_normalized [OF d, of cwd] by simp
  qed
qed

lemma inside_entry:
  assumes d: "normalized_absolute d" and n: "clean_segment n"
    and i: "inside cwd d0 d"
  shows "inside cwd d0 (path_join [d, n])"
  using i segments_of_entry [OF d n, of cwd] by (simp add: inside_def)

lemma inside_refl: "inside cwd d d"
  by (simp add: inside_def)

lemma inside_trans: "inside cwd a b \<Longrightarrow> inside cwd b c \<Longrightarrow> inside cwd a c"
  unfolding inside_def by (rule prefix_order.trans)

subsection \<open>The path sandbox\<close>

lemma safePath_cases:
  "safePath cwd W p = Inl PathRequired \<or> safePath cwd W p = Inl OutsideWorkdir \<or>
   (\<exists>q. p = Some q \<and> q \<noteq> [] \<and> safePath cwd W p = Inr (path_resolve cwd [W, q]))"
  by (auto simp: safePath_def Let_def split: option.splits)

lemma safePath_inside:
  assumes W: "normalized_absolute W" and q: "q \<noteq> []"
    and c: "\<not> continues cwd W (path_resolve cwd [W, q])"
  shows "safePath cwd W (Some q) =
           (if inside cwd W (path_resolve cwd [W, q]) then Inr (path_resolve cwd [W, q])
            else Inl OutsideWorkdir)"
proof -
  from W have "W \<noteq> []" "hd W = CHR ''/''"
    by (auto simp: normalized_absolute_def)
  then have r: "normalized_absolute (path_resolve cwd [W, q])"
    by (rule path_resolve_absolute_root)
  from prefix_normalized [OF W r, of cwd] c
  have "prefix W (path_resolve cwd [W, q]) \<longleftrightarrow> inside cwd W (path_resolve cwd [W, q])"
    by simp
  with q show ?thesis
    by (simp add: safePath_def Let_def)
qed

text \<open>
  Claim C1, as amended. The candidate is a string or missing, and \<open>WORKDIR\<close> is an
  absolute normalised path. \<open>safePath\<close> either throws ("Path is required" for a
  candidate that is missing or empty, "Invalid path: outside working directory") or
  returns \<open>path.resolve(WORKDIR, p)\<close>, an absolute normalised path; there is no third
  outcome. A resolved path that is \<open>WORKDIR\<close> itself or lies below it is returned, so
  the prefix need not be strict: \<open>.\<close> gives \<open>WORKDIR\<close>. A resolved path that is neither
  is refused, whether it got there by \<open>..\<close> or by an absolute candidate: with
  \<open>/home/user/work\<close> as \<open>WORKDIR\<close>, \<open>../../etc/passwd\<close> and \<open>/etc/passwd\<close> are refused.
  Nothing is said of a resolved path that continues the name of \<open>WORKDIR\<close>. Resolution
  is lexical: the file system is not consulted and no symbolic link is followed.
\<close>

theorem safePath_outcomes:
  "(safePath cwd W p = Inl PathRequired \<or> safePath cwd W p = Inl OutsideWorkdir \<or>
     (\<exists>q. p = Some q \<and> q \<noteq> [] \<and> safePath cwd W p = Inr (path_resolve cwd [W, q]))) \<and>
   safePath cwd W None = Inl PathRequired \<and>
   safePath cwd W (Some []) = Inl PathRequired \<and>
   (normalized_absolute W \<and> q \<noteq> [] \<and> \<not> continues cwd W (path_resolve cwd [W, q]) \<longrightarrow>
      normalized_absolute (path_resolve cwd [W, q]) \<and>
      safePath cwd W (Some q) =
        (if inside cwd W (path_resolve cwd [W, q]) then Inr (path_resolve cwd [W, q])
         else Inl OutsideWorkdir)) \<and>
   safePath cwd ''/home/user/work'' (Some ''../../etc/passwd'') = Inl OutsideWorkdir \<and>
   safePath cwd ''/home/user/work'' (Some ''/etc/passwd'') = Inl OutsideWorkdir \<and>
   safePath cwd ''/home/user/work'' (Some ''src/app.js'') = Inr ''/home/user/work/src/app.js'' \<and>
   safePath cwd ''/home/user/work'' (Some ''.'') = Inr ''/home/user/work''"
proof -
  have 1: "safePath cwd W None = Inl PathRequired" "safePath cwd W (Some []) = Inl PathRequired"
    by (simp_all add: safePath_def)
  have 2: "normalized_absolute (path_resolve cwd [W, q]) \<and>
      safePath cwd W (Some q) =
        (if inside cwd W (path_resolve cwd [W, q]) then Inr (path_resolve cwd [W, q])
         else Inl OutsideWorkdir)"
    if h: "normalized_absolute W \<and> q \<noteq> [] \<and> \<not> continues cwd W (path_resolve cwd [W, q])"
  proof -
    from h have "W \<noteq> []" "hd W = CHR ''/''"
      by (auto simp: normalized_absolute_def)
    then have "normalized_absolute (path_resolve cwd [W, q])"
      by (rule path_resolve_absolute_root)
    moreover from h have "safePath cwd W (Some q) =
        (if inside cwd W (path_resolve cwd [W, q]) then Inr (path_resolve cwd [W, q])
         else Inl OutsideWorkdir)"
      by (intro safePath_inside) simp_all
    ultimately show ?thesis ..
  qed
  have 3: "safePath cwd ''/home/user/work'' (Some ''../../etc/passwd'') = Inl OutsideWorkdir"
    by (simp add: safePath_def path_resolve_def normalizeString_def)
  have 4: "safePath cwd ''/home/user/work'' (Some ''/etc/passwd'') = Inl OutsideWorkdir"
    by (simp add: safePath_def path_resolve_def normalizeString_def)
  have 5: "safePath cwd ''/home/user/work'' (Some ''src/app.js'') = Inr ''/home/user/work/src/app.js''"
    by (simp add: safePath_def path_resolve_def normalizeString_def)
  have 6: "safePath cwd ''/home/user/work'' (Some ''.'') = Inr ''/home/user/work''"
    by (simp add: safePath_def path_resolve_def normalizeString_def)
  from safePath_cases [of cwd W p] 1 2 3 4 5 6 show ?thesis by blast
qed

theorem safePath_outcomes_witness:
  "safePath ''/srv'' ''/home/user/work'' (Some ''src/lib/a.js'') = Inr ''/home/user/work/src/lib/a.js'' \<and>
   inside ''/srv'' ''/home/user/work'' ''/home/user/work/src/lib/a.js'' \<and>
   normalized_absolute ''/home/user/work/src/lib/a.js'' \<and>
   safePath ''/srv'' ''/home/user/work'' (Some ''../../home/x'') = Inl OutsideWorkdir \<and>
   \<not> inside ''/srv'' ''/home/user/work'' (path_resolve ''/srv'' [''/home/user/work'', ''../../home/x''])"
proof -
  have r1: "path_resolve ''/srv'' [''/home/user/work'', ''src/lib/a.js''] = ''/home/user/work/src/lib/a.js''"
    by (simp add: path_resolve_def normalizeString_def)
  have r2: "path_resolve ''/srv'' [''/home/user/work'', ''../../home/x''] = ''/home/home/x''"
    by (simp add: path_resolve_def normalizeString_def)
  have n: "normalized_absolute ''/home/user/work''"
    by (simp add: normalized_absolute_def clean_segment_def)
  have i1: "inside ''/srv'' ''/home/user/work'' ''/home/user/work/src/lib/a.js''"
    by (simp add: inside_def segments_of_def)
  have i2: "\<not> inside ''/srv'' ''/home/user/work'' ''/home/home/x''"
    by (simp add: inside_def segments_of_def)
  have c1: "\<not> continues ''/srv'' ''/home/user/work'' ''/home/user/work/src/lib/a.js''"
    by (simp add: continues_def segments_of_def)
  have c2: "\<not> continues ''/srv'' ''/home/user/work'' ''/home/home/x''"
    by (simp add: continues_def segments_of_def)
  have h1: "normalized_absolute ''/home/user/work'' \<and> ''src/lib/a.js'' \<noteq> [] \<and>
            \<not> continues ''/srv'' ''/home/user/work''
                (path_resolve ''/srv'' [''/home/user/work'', ''src/lib/a.js''])"
    using n c1 by (simp add: r1)
  have h2: "normalized_absolute ''/home/user/work'' \<and> ''../../home/x'' \<noteq> [] \<and>
            \<not> continues ''/srv'' ''/home/user/work''
                (path_resolve ''/srv'' [''/home/user/work'', ''../../home/x''])"
    using n c2 by (simp add: r2)
  from safePath_outcomes [of "''/srv''" "''/home/user/work''" None "''src/lib/a.js''"] h1
  have a: "normalized_absolute (path_resolve ''/srv'' [''/home/user/work'', ''src/lib/a.js'']) \<and>
      safePath ''/srv'' ''/home/user/work'' (Some ''src/lib/a.js'') =
        (if inside ''/srv'' ''/home/user/work'' (path_resolve ''/srv'' [''/home/user/work'', ''src/lib/a.js''])
         then Inr (path_resolve ''/srv'' [''/home/user/work'', ''src/lib/a.js''])
         else Inl OutsideWorkdir)"
    by blast
  from safePath_outcomes [of "''/srv''" "''/home/user/work''" None "''../../home/x''"] h2
  have b: "safePath ''/srv'' ''/home/user/work'' (Some ''../../home/x'') =
        (if inside ''/srv'' ''/home/user/work'' (path_resolve ''/srv'' [''/home/user/work'', ''../../home/x''])
         then Inr (path_resolve ''/srv'' [''/home/user/work'', ''../../home/x''])
         else Inl OutsideWorkdir)"
    by blast
  from a i1 have a1: "safePath ''/srv'' ''/home/user/work'' (Some ''src/lib/a.js'') = Inr ''/home/user/work/src/lib/a.js''"
    and a2: "normalized_absolute ''/home/user/work/src/lib/a.js''"
    unfolding r1 by simp_all
  from b i2 have b1: "safePath ''/srv'' ''/home/user/work'' (Some ''../../home/x'') = Inl OutsideWorkdir"
    unfolding r2 by simp
  from i2 have b2: "\<not> inside ''/srv'' ''/home/user/work'' (path_resolve ''/srv'' [''/home/user/work'', ''../../home/x''])"
    unfolding r2 .
  from a1 i1 a2 b1 b2 show ?thesis by blast
qed

text \<open>
  The claim as stated asks for a strict prefix. The candidate \<open>.\<close> (the default of the
  directory listing) resolves to \<open>WORKDIR\<close> itself and is accepted.
\<close>

theorem safePath_strict_prefix_counterexample:
  "\<not> (safePath ''/srv'' ''/home/user/work'' (Some ''.'') = Inl PathRequired \<or>
      safePath ''/srv'' ''/home/user/work'' (Some ''.'') = Inl OutsideWorkdir \<or>
      (\<exists>r. safePath ''/srv'' ''/home/user/work'' (Some ''.'') = Inr r \<and>
           strict_prefix ''/home/user/work'' r))"
  by (simp add: safePath_def path_resolve_def normalizeString_def)

text \<open>
  The test of \<open>safePath\<close> is \<open>startsWith\<close>, on strings and not on segments. A resolved
  path that continues the name of \<open>WORKDIR\<close> passes it, though it is outside the
  working directory and though the function is there to refuse such paths ("Invalid
  path: outside working directory"): a sibling directory, reached by \<open>..\<close> or by an
  absolute candidate.
\<close>

lemma safePath_sibling_directory:
  "safePath cwd ''/home/user/work'' (Some ''../work-evil/x'') = Inr ''/home/user/work-evil/x'' \<and>
   safePath cwd ''/home/user/work'' (Some ''/home/user/work2/y'') = Inr ''/home/user/work2/y'' \<and>
   \<not> inside cwd ''/home/user/work'' ''/home/user/work-evil/x'' \<and>
   continues cwd ''/home/user/work'' ''/home/user/work-evil/x''"
  by (simp add: safePath_def path_resolve_def normalizeString_def inside_def continues_def
        segments_of_def)

subsection \<open>The upgrade request\<close>

text \<open>
  Claim C4. An upgrade request whose \<open>Authorization\<close> header is not exactly \<open>Bearer\<close>, a
  space and the configured token (or is missing) is answered \<open>401 Unauthorized\<close> on the
  raw socket, the socket is destroyed, and the state, the session set included, is
  unchanged. Whenever the handler starts a process or changes the session set, the
  request carried the exact credential; with it, the terminal URL and a handshake the
  library accepts, the session is created.
\<close>

theorem upgrade_requires_credential:
  "(upgrade_authorization req \<noteq> Some (''Bearer '' @ AGENT_TOKEN cfg) \<longrightarrow>
      on_upgrade cfg req c st = (unauthorized_reply, st)) \<and>
   (list_ex is_spawn (fst (on_upgrade cfg req c st)) \<or>
    activeSessions (snd (on_upgrade cfg req c st)) \<noteq> activeSessions st \<longrightarrow>
      upgrade_authorization req = Some (''Bearer '' @ AGENT_TOKEN cfg)) \<and>
   (upgrade_authorization req = Some (''Bearer '' @ AGENT_TOKEN cfg) \<and>
    upgrade_url req = ''/ws/terminal'' \<and> handshake_valid req \<longrightarrow>
      list_ex is_spawn (fst (on_upgrade cfg req c st)) \<and>
      activeSessions (snd (on_upgrade cfg req c st)) (sessionId c) = Some (shell c))"
  by (auto simp: on_upgrade_def on_connection_def unauthorized_reply_def)

theorem upgrade_requires_credential_witness:
  "on_upgrade \<lparr>WORKDIR = ''/home/user/work'', AGENT_TOKEN = ''secrets'', ALLOWED_EXTENSIONS = None,
       platform = ''linux'', process_cwd = ''/home/user/work''\<rparr>
     \<lparr>upgrade_authorization = Some ''Bearer guess'', upgrade_url = ''/ws/terminal'',
       handshake_valid = True\<rparr>
     \<lparr>sessionId = ''k3x9q'', shell = 1, ws = 1\<rparr>
     \<lparr>activeSessions = Map.empty, readyState = (\<lambda>w. CLOSED)\<rparr>
   = (unauthorized_reply, \<lparr>activeSessions = Map.empty, readyState = (\<lambda>w. CLOSED)\<rparr>) \<and>
   activeSessions (snd (on_upgrade \<lparr>WORKDIR = ''/home/user/work'', AGENT_TOKEN = ''secrets'',
       ALLOWED_EXTENSIONS = None, platform = ''linux'', process_cwd = ''/home/user/work''\<rparr>
     \<lparr>upgrade_authorization = Some ''Bearer secrets'', upgrade_url = ''/ws/terminal'',
       handshake_valid = True\<rparr>
     \<lparr>sessionId = ''k3x9q'', shell = 1, ws = 1\<rparr>
     \<lparr>activeSessions = Map.empty, readyState = (\<lambda>w. CLOSED)\<rparr>)) ''k3x9q'' = Some 1"
proof -
  let ?cfg = "\<lparr>WORKDIR = ''/home/user/work'', AGENT_TOKEN = ''secrets'', ALLOWED_EXTENSIONS = None,
       platform = ''linux'', process_cwd = ''/home/user/work''\<rparr>"
  let ?c = "\<lparr>sessionId = ''k3x9q'', shell = 1, ws = 1\<rparr>"
  let ?st = "\<lparr>activeSessions = Map.empty, readyState = (\<lambda>w. CLOSED)\<rparr>"
  let ?bad = "\<lparr>upgrade_authorization = Some ''Bearer guess'', upgrade_url = ''/ws/terminal'',
       handshake_valid = True\<rparr>"
  let ?good = "\<lparr>upgrade_authorization = Some ''Bearer secrets'', upgrade_url = ''/ws/terminal'',
       handshake_valid = True\<rparr>"
  have h1: "upgrade_authorization ?bad \<noteq> Some (''Bearer '' @ AGENT_TOKEN ?cfg)"
    by simp
  have h2: "upgrade_authorization ?good = Some (''Bearer '' @ AGENT_TOKEN ?cfg) \<and>
            upgrade_url ?good = ''/ws/terminal'' \<and> handshake_valid ?good"
    by simp
  from upgrade_requires_credential [of ?bad ?cfg ?c ?st] h1
  have "on_upgrade ?cfg ?bad ?c ?st = (unauthorized_reply, ?st)"
    by blast
  moreover from upgrade_requires_credential [of ?good ?cfg ?c ?st] h2
  have "activeSessions (snd (on_upgrade ?cfg ?good ?c ?st)) (sessionId ?c) = Some (shell ?c)"
    by blast
  ultimately show ?thesis by simp
qed

subsection \<open>Frames received on a terminal connection\<close>

lemma get_property_object:
  "get_property json k = Some (Some v) \<Longrightarrow> \<exists>props. json = JObject props \<and> map_of props k = Some v"
  by (cases json) auto

text \<open>
  Claim C5. The handler takes a frame as a control message exactly when its text starts
  with \<open>{\<close>. Such a frame is never written to the process. When it parses to an object
  whose \<open>type\<close> is \<open>ping\<close>, the one thing the handler does is send one \<open>pong\<close> frame;
  when \<open>JSON.parse\<close> throws, or the \<open>type\<close> is neither \<open>ping\<close> nor \<open>resize\<close>, the
  handler does nothing. A frame is answered or resizes the terminal only if it starts
  with \<open>{\<close> and parses to an object; every other frame goes to the process as it is.
\<close>

theorem message_control_frames:
  "(prefix ''{'' msg \<and> JSON_parse msg = Some json \<and>
    get_property json ''type'' = Some (Some (JString ''ping'')) \<longrightarrow>
      on_message JSON_parse c msg st = ([WsSend (ws c) Pong], st)) \<and>
   (prefix ''{'' msg \<and> JSON_parse msg = None \<longrightarrow> on_message JSON_parse c msg st = ([], st)) \<and>
   (prefix ''{'' msg \<and> JSON_parse msg = Some json \<and>
    get_property json ''type'' \<noteq> Some (Some (JString ''ping'')) \<and>
    get_property json ''type'' \<noteq> Some (Some (JString ''resize'')) \<longrightarrow>
      on_message JSON_parse c msg st = ([], st)) \<and>
   (prefix ''{'' msg \<longrightarrow> \<not> list_ex is_shell_write (fst (on_message JSON_parse c msg st))) \<and>
   (fst (on_message JSON_parse c msg st) \<noteq> [] \<and>
    \<not> list_ex is_shell_write (fst (on_message JSON_parse c msg st)) \<longrightarrow>
      prefix ''{'' msg \<and> (\<exists>props. JSON_parse msg = Some (JObject props))) \<and>
   (\<not> prefix ''{'' msg \<longrightarrow> on_message JSON_parse c msg st = ([ShellWrite (shell c) msg], st))"
proof -
  have obj: "\<exists>props. j = JObject props" if "get_property j ''type'' = Some (Some v)" for j v
    using get_property_object [OF that] by blast
  show ?thesis
    by (auto simp: on_message_def split: option.splits prod.splits dest: obj)
qed

theorem message_control_frames_witness:
  "on_message example_parse example_session ping_text example_state
     = ([WsSend (ws example_session) Pong], example_state) \<and>
   on_message example_parse example_session ''{oops'' example_state = ([], example_state) \<and>
   on_message example_parse example_session ''{}'' example_state = ([], example_state) \<and>
   \<not> list_ex is_shell_write (fst (on_message example_parse example_session ping_text example_state)) \<and>
   (\<exists>props. example_parse ping_text = Some (JObject props)) \<and>
   on_message example_parse example_session ''echo hi'' example_state
     = ([ShellWrite (shell example_session) ''echo hi''], example_state)"
proof -
  have p: "prefix ''{'' ping_text" "prefix ''{'' ''{oops''" "prefix ''{'' ''{}''" "\<not> prefix ''{'' ''echo hi''"
    by (simp_all add: ping_text_def)
  have e: "example_parse ping_text = Some (JObject [(''type'', JString ''ping'')])"
    "example_parse ''{oops'' = None" "example_parse ''{}'' = Some (JObject [])"
    by (simp_all add: example_parse_def ping_text_def resize_text_def)
  have g: "get_property (JObject [(''type'', JString ''ping'')]) ''type'' = Some (Some (JString ''ping''))"
    "get_property (JObject []) ''type'' \<noteq> Some (Some (JString ''ping''))"
    "get_property (JObject []) ''type'' \<noteq> Some (Some (JString ''resize''))"
    by simp_all
  note t = message_control_frames [where JSON_parse = example_parse and c = example_session
      and st = example_state]
  have 1: "on_message example_parse example_session ping_text example_state
     = ([WsSend (ws example_session) Pong], example_state)"
    using t [of ping_text "JObject [(''type'', JString ''ping'')]"] p e g by blast
  have 2: "on_message example_parse example_session ''{oops'' example_state = ([], example_state)"
    using t [of "''{oops''"] p e by blast
  have 3: "on_message example_parse example_session ''{}'' example_state = ([], example_state)"
    using t [of "''{}''" "JObject []"] p e g by blast
  have 4: "\<not> list_ex is_shell_write (fst (on_message example_parse example_session ping_text example_state))"
    using t [of ping_text] p by blast
  have 5: "\<exists>props. example_parse ping_text = Some (JObject props)"
    using t [of ping_text] 1 4 by simp
  have 6: "on_message example_parse example_session ''echo hi'' example_state
     = ([ShellWrite (shell example_session) ''echo hi''], example_state)"
    using t [of "''echo hi''"] p by blast
  from 1 2 3 4 5 6 show ?thesis by blast
qed

subsection \<open>Closing a terminal connection\<close>

lemma session_step_keeps_absent:
  "activeSessions st (sessionId c) = None \<Longrightarrow>
   activeSessions (snd (session_step JSON_parse c e st)) (sessionId c) = None"
  by (cases e)
     (auto simp: on_message_def on_shell_data_def on_shell_exit_def on_close_def
           split: option.splits prod.splits)

lemma session_run_keeps_absent:
  "activeSessions st (sessionId c) = None \<Longrightarrow>
   activeSessions (snd (session_run JSON_parse c es st)) (sessionId c) = None"
proof (induction es arbitrary: st)
  case Nil
  then show ?case by simp
next
  case (Cons e es)
  from Cons.prems have "activeSessions (snd (session_step JSON_parse c e st)) (sessionId c) = None"
    by (rule session_step_keeps_absent)
  then have "activeSessions (snd (session_run JSON_parse c es (snd (session_step JSON_parse c e st))))
      (sessionId c) = None"
    by (rule Cons.IH)
  then show ?case
    by (simp add: case_prod_beta)
qed

text \<open>
  Claim C6. When the connection of a session closes, for whatever reason, the handler
  of the close event asks the paired process to terminate (\<open>shell.kill()\<close>) and removes
  the session from \<open>activeSessions\<close>, in that one handler run; the other sessions stay.
  No later event of that connection (a frame, output or exit of the process, a second
  close) brings the session back.
\<close>

theorem close_kills_and_removes:
  "fst (on_close c st) = [ShellKill (shell c)] \<and>
   activeSessions (snd (on_close c st)) = (activeSessions st)(sessionId c := None) \<and>
   sessionId c \<notin> dom (activeSessions (snd (on_close c st))) \<and>
   sessionId c \<notin> dom (activeSessions (snd (session_run JSON_parse c es (snd (on_close c st)))))"
proof -
  have a: "activeSessions (snd (on_close c st)) (sessionId c) = None"
    by (simp add: on_close_def)
  from session_run_keeps_absent [OF a]
  have "activeSessions (snd (session_run JSON_parse c es (snd (on_close c st)))) (sessionId c) = None" .
  then show ?thesis
    by (auto simp: on_close_def)
qed

theorem close_kills_and_removes_witness:
  "fst (on_close example_session example_state) = [ShellKill 1] \<and>
   activeSessions (snd (on_close example_session example_state)) ''k3x9q'' = None \<and>
   ''k3x9q'' \<notin> dom (activeSessions (snd (session_run example_parse example_session
       [ShellData ''bye'', ShellExit 0 None, Message ''ls'', Close]
       (snd (on_close example_session example_state)))))"
  using close_kills_and_removes [of example_session example_state example_parse
      "[ShellData ''bye'', ShellExit 0 None, Message ''ls'', Close]"]
  by (simp add: example_session_def)

subsection \<open>Resizing the terminal\<close>

text \<open>
  Claim C10. A frame that starts with \<open>{\<close> and parses to an object whose \<open>type\<close> is
  \<open>resize\<close> makes the handler call \<open>shell.resize(json.cols || 80, json.rows || 30)\<close> and
  nothing else: a field that is missing or falsy (\<open>null\<close>, \<open>0\<close>, \<open>false\<close>, the empty
  string) is replaced by 80 columns, respectively 30 rows, and no frame is sent.
\<close>

theorem resize_defaults:
  "(prefix ''{'' msg \<and> JSON_parse msg = Some (JObject props) \<and>
    map_of props ''type'' = Some (JString ''resize'') \<longrightarrow>
      on_message JSON_parse c msg st
        = ([ShellResize (shell c) (or_default (map_of props ''cols'') (JNumber 80))
              (or_default (map_of props ''rows'') (JNumber 30))], st) \<and>
      \<not> list_ex is_send (fst (on_message JSON_parse c msg st))) \<and>
   (falsy_or_missing v \<longrightarrow> or_default v d = d) \<and>
   falsy_or_missing None \<and> falsy_or_missing (Some JNull) \<and> falsy_or_missing (Some (JNumber 0)) \<and>
   falsy_or_missing (Some (JBool False)) \<and> falsy_or_missing (Some (JString []))"
  by (cases v) (auto simp: on_message_def)

theorem resize_defaults_witness:
  "on_message example_parse example_session resize_text example_state
     = ([ShellResize (shell example_session) (JNumber 80) (JNumber 50)], example_state) \<and>
   \<not> list_ex is_send (fst (on_message example_parse example_session resize_text example_state)) \<and>
   or_default (Some (JNumber 0)) (JNumber 30) = JNumber 30"
proof -
  let ?props = "[(''type'', JString ''resize''), (''rows'', JNumber 50)]"
  have h: "prefix ''{'' resize_text \<and> example_parse resize_text = Some (JObject ?props) \<and>
           map_of ?props ''type'' = Some (JString ''resize'')"
    by (simp add: resize_text_def example_parse_def ping_text_def)
  have f: "falsy_or_missing (Some (JNumber 0))"
    by simp
  from resize_defaults [of resize_text example_parse ?props example_session example_state
      "Some (JNumber 0)" "JNumber 30"] h f
  show ?thesis by simp
qed

subsection \<open>The authentication gate of the agent\<close>

lemma assertAuth_iff: "assertAuth cfg auth = (auth = Some (''Bearer '' @ AGENT_TOKEN cfg))"
  by (auto simp: assertAuth_def split: option.splits)

lemma unauthorized_rejected:
  "\<not> assertAuth cfg (authorization req) \<Longrightarrow> r \<noteq> GET_health \<Longrightarrow> handle cfg r req w = (unauthorized, w)"
  by (cases r)
     (simp_all add: get_api_files_def post_api_files_def put_api_files_def delete_api_files_def
        get_api_ls_def post_api_mkdir_def get_api_stat_def get_api_search_def)

lemma get_api_files_not_401:
  "assertAuth cfg (authorization req) \<Longrightarrow> status (fst (get_api_files cfg req w)) \<noteq> 401"
  by (simp add: get_api_files_def Let_def case_prod_beta split: sum.splits option.splits)

lemma post_api_files_not_401:
  "assertAuth cfg (authorization req) \<Longrightarrow> status (fst (post_api_files cfg req w)) \<noteq> 401"
  by (simp add: post_api_files_def Let_def case_prod_beta split: sum.splits option.splits prod.splits)

lemma put_api_files_not_401:
  "assertAuth cfg (authorization req) \<Longrightarrow> status (fst (put_api_files cfg req w)) \<noteq> 401"
  by (simp add: put_api_files_def Let_def case_prod_beta split: sum.splits option.splits)

lemma delete_api_files_not_401:
  "assertAuth cfg (authorization req) \<Longrightarrow> status (fst (delete_api_files cfg req w)) \<noteq> 401"
  by (simp add: delete_api_files_def Let_def case_prod_beta split: sum.splits option.splits prod.splits)

lemma get_api_ls_not_401:
  "assertAuth cfg (authorization req) \<Longrightarrow> status (fst (get_api_ls cfg req w)) \<noteq> 401"
  by (simp add: get_api_ls_def Let_def case_prod_beta split: sum.splits option.splits)

lemma post_api_mkdir_not_401:
  "assertAuth cfg (authorization req) \<Longrightarrow> status (fst (post_api_mkdir cfg req w)) \<noteq> 401"
  by (simp add: post_api_mkdir_def Let_def case_prod_beta split: sum.splits option.splits)

lemma get_api_stat_not_401:
  "assertAuth cfg (authorization req) \<Longrightarrow> status (fst (get_api_stat cfg req w)) \<noteq> 401"
  by (simp add: get_api_stat_def Let_def case_prod_beta split: sum.splits option.splits)

lemma get_api_search_not_401:
  "assertAuth cfg (authorization req) \<Longrightarrow> status (fst (get_api_search cfg req w)) \<noteq> 401"
  by (simp add: get_api_search_def Let_def case_prod_beta split: sum.splits option.splits)

lemma authorized_not_401:
  "assertAuth cfg (authorization req) \<Longrightarrow> status (fst (handle cfg r req w)) \<noteq> 401"
  by (cases r)
     (simp_all add: get_health_def get_api_files_not_401 post_api_files_not_401
        put_api_files_not_401 delete_api_files_not_401 get_api_ls_not_401 post_api_mkdir_not_401
        get_api_stat_not_401 get_api_search_not_401)

subsection \<open>The calls of the agent's handlers on the file system\<close>

lemma logged_calls [simp]: "calls (logged c w) = calls w @ [c]"
  by (simp add: logged_def)

lemma logged_files [simp]: "files (logged c w) = files w"
  by (simp add: logged_def)

lemma fileExists_world [simp]: "snd (fileExists cfg p w) = logged (FsAccess p) w"
  by (simp add: fileExists_def)

lemma getFileStats_world [simp]: "snd (getFileStats cfg p w) = logged (FsStat p) w"
  by (simp add: getFileStats_def split: sum.splits)

lemma ls_entries_calls:
  assumes P: "\<And>c. normalized_absolute (call_path c) \<Longrightarrow> inside cwd d (call_path c) \<Longrightarrow> P c"
    and d: "normalized_absolute d"
  shows "list_all (\<lambda>e. clean_segment (entry_name e)) es \<Longrightarrow> list_all P (calls w) \<Longrightarrow>
         list_all P (calls (snd (ls_entries cfg d detailed es w)))"
proof (induction es arbitrary: w)
  case Nil
  then show ?case by simp
next
  case (Cons e es)
  from Cons.prems have ce: "clean_segment (entry_name e)"
    and ces: "list_all (\<lambda>e. clean_segment (entry_name e)) es"
    by simp_all
  let ?w1 = "snd (if detailed then getFileStats cfg (path_join [d, entry_name e]) w else (None, w))"
  have "P (FsStat (path_join [d, entry_name e]))"
    using P path_join_entry_normalized [OF d ce] inside_entry [OF d ce inside_refl] by simp
  with Cons.prems(2) have "list_all P (calls ?w1)"
    by simp
  from Cons.IH [OF ces this] show ?case
    by (simp add: Let_def case_prod_beta)
qed

lemma search_entries_calls:
  assumes rec: "\<And>d'. normalized_absolute d' \<Longrightarrow> inside cwd d0 d' \<Longrightarrow>
                  list_all P (snd (searchRecursive cfg fs query d' n))"
    and d: "normalized_absolute d" and i: "inside cwd d0 d"
  shows "list_all (\<lambda>e. clean_segment (entry_name e)) es \<Longrightarrow>
         list_all P (snd (search_entries cfg fs query d n es))"
proof (induction es)
  case Nil
  show ?case by simp
next
  case (Cons e es)
  from Cons.prems have ce: "clean_segment (entry_name e)"
    and ces: "list_all (\<lambda>e. clean_segment (entry_name e)) es"
    by simp_all
  have "list_all P (snd (searchRecursive cfg fs query (path_join [d, entry_name e]) n))"
    using rec path_join_entry_normalized [OF d ce] inside_entry [OF d ce i] by blast
  with Cons.IH [OF ces] show ?case
    by (simp add: Let_def case_prod_beta)
qed

lemma searchRecursive_calls:
  assumes P: "\<And>c. normalized_absolute (call_path c) \<Longrightarrow> inside cwd d0 (call_path c) \<Longrightarrow> P c"
  shows "normalized_absolute d \<Longrightarrow> inside cwd d0 d \<Longrightarrow>
         list_all P (snd (searchRecursive cfg fs query d n))"
proof (induction n arbitrary: d)
  case 0
  show ?case by simp
next
  case (Suc n)
  have here: "P (FsReaddir d)"
    using P Suc.prems by simp
  show ?case
  proof (cases "fs_readdir fs (segments_of (process_cwd cfg) d)")
    case (Inl e)
    with here show ?thesis by simp
  next
    case (Inr entries)
    have "list_all P (snd (search_entries cfg fs query d n entries))"
    proof (rule search_entries_calls [where cwd = cwd and ?d0.0 = d0])
      fix d'
      assume "normalized_absolute d'" and "inside cwd d0 d'"
      then show "list_all P (snd (searchRecursive cfg fs query d' n))"
        by (rule Suc.IH)
    next
      show "normalized_absolute d" by (rule Suc.prems(1))
    next
      show "inside cwd d0 d" by (rule Suc.prems(2))
    next
      show "list_all (\<lambda>e. clean_segment (entry_name e)) entries"
        using Inr by (rule fs_readdir_clean)
    qed
    with Inr here show ?thesis
      by (simp add: case_prod_beta)
  qed
qed

lemma refused_untouched:
  "safePath (process_cwd cfg) (WORKDIR cfg) (client_path r req) = Inl e \<Longrightarrow>
   snd (handle cfg r req w) = w"
  by (cases r)
     (auto simp: get_health_def get_api_files_def post_api_files_def put_api_files_def
        delete_api_files_def get_api_ls_def post_api_mkdir_def get_api_stat_def
        get_api_search_def safePath_def Let_def
        split: option.splits if_splits)

lemma get_api_files_calls:
  assumes "\<And>c. call_path c = fp \<Longrightarrow> P c" "list_all P (calls w)"
    and "safePath (process_cwd cfg) (WORKDIR cfg) (query_path req) = Inr fp"
  shows "list_all P (calls (snd (get_api_files cfg req w)))"
  using assms
  by (simp add: get_api_files_def Let_def case_prod_beta split: sum.splits option.splits)

lemma post_api_files_calls:
  assumes "\<And>c. call_path c = fp \<Longrightarrow> P c" "P (FsMkdir (path_dirname fp))"
    and "list_all P (calls w)"
    and "safePath (process_cwd cfg) (WORKDIR cfg) (body_path req) = Inr fp"
  shows "list_all P (calls (snd (post_api_files cfg req w)))"
  using assms
  by (auto simp: post_api_files_def Let_def case_prod_beta
        split: sum.splits option.splits prod.splits)

lemma put_api_files_calls:
  assumes "\<And>c. call_path c = fp \<Longrightarrow> P c" "list_all P (calls w)"
    and "safePath (process_cwd cfg) (WORKDIR cfg) (body_path req) = Inr fp"
  shows "list_all P (calls (snd (put_api_files cfg req w)))"
  using assms
  by (auto simp: put_api_files_def Let_def case_prod_beta split: sum.splits option.splits)

lemma delete_api_files_calls:
  assumes "\<And>c. call_path c = fp \<Longrightarrow> P c" "list_all P (calls w)"
    and "safePath (process_cwd cfg) (WORKDIR cfg) (query_path req) = Inr fp"
  shows "list_all P (calls (snd (delete_api_files cfg req w)))"
  using assms
  by (auto simp: delete_api_files_def Let_def case_prod_beta
        split: sum.splits option.splits prod.splits)

lemma post_api_mkdir_calls:
  assumes "\<And>c. call_path c = fp \<Longrightarrow> P c" "list_all P (calls w)"
    and "safePath (process_cwd cfg) (WORKDIR cfg) (body_path req) = Inr fp"
  shows "list_all P (calls (snd (post_api_mkdir cfg req w)))"
  using assms
  by (auto simp: post_api_mkdir_def Let_def split: sum.splits option.splits)

lemma get_api_stat_calls:
  assumes "\<And>c. call_path c = fp \<Longrightarrow> P c" "list_all P (calls w)"
    and "safePath (process_cwd cfg) (WORKDIR cfg) (query_path req) = Inr fp"
  shows "list_all P (calls (snd (get_api_stat cfg req w)))"
  using assms
  by (simp add: get_api_stat_def Let_def case_prod_beta split: sum.splits option.splits)

lemma get_api_ls_calls:
  assumes P: "\<And>c. call_path c = fp \<Longrightarrow> P c"
    and L: "\<And>c. normalized_absolute (call_path c) \<Longrightarrow> inside cwd fp (call_path c) \<Longrightarrow> P c"
    and w: "list_all P (calls w)"
    and n: "normalized_absolute fp"
    and s: "safePath (process_cwd cfg) (WORKDIR cfg) (client_path GET_api_ls req) = Inr fp"
  shows "list_all P (calls (snd (get_api_ls cfg req w)))"
proof -
  have here: "P (FsAccess fp)" "P (FsStat fp)" "P (FsReaddir fp)"
    using P by simp_all
  let ?w3 = "logged (FsReaddir fp) (logged (FsStat fp) (logged (FsAccess fp) w))"
  have w3: "list_all P (calls ?w3)"
    using w here by simp
  have "list_all P (calls (snd (ls_entries cfg fp detailed es ?w3)))"
    if "fs_readdir fs k = Inr es" for fs k es detailed
    using L n fs_readdir_clean [OF that] w3 by (rule ls_entries_calls)
  with s w here show ?thesis
    by (simp add: get_api_ls_def Let_def case_prod_beta split: sum.splits option.splits)
qed

lemma get_api_search_calls:
  assumes L: "\<And>c. normalized_absolute (call_path c) \<Longrightarrow> inside cwd fp (call_path c) \<Longrightarrow> P c"
    and w: "list_all P (calls w)"
    and n: "normalized_absolute fp"
    and s: "safePath (process_cwd cfg) (WORKDIR cfg) (client_path GET_api_search req) = Inr fp"
  shows "list_all P (calls (snd (get_api_search cfg req w)))"
proof -
  have r: "inside cwd fp fp"
    by (rule inside_refl)
  have "list_all P (snd (searchRecursive cfg fs query fp k))" for fs query k
    using searchRecursive_calls [of cwd fp P fp, OF L n r] .
  with s w show ?thesis
    by (simp add: get_api_search_def Let_def case_prod_beta split: sum.splits option.splits)
qed

lemma handle_calls:
  assumes P: "\<And>c. call_path c = fp \<Longrightarrow> P c"
    and L: "\<And>c. r = GET_api_ls \<or> r = GET_api_search \<Longrightarrow> normalized_absolute (call_path c) \<Longrightarrow>
              inside cwd fp (call_path c) \<Longrightarrow> P c"
    and m: "r = POST_api_files \<Longrightarrow> P (FsMkdir (path_dirname fp))"
    and w: "list_all P (calls w)"
    and n: "normalized_absolute fp"
    and s: "safePath (process_cwd cfg) (WORKDIR cfg) (client_path r req) = Inr fp"
  shows "list_all P (calls (snd (handle cfg r req w)))"
proof (cases r)
  case GET_health
  with w show ?thesis by (simp add: get_health_def)
next
  case GET_api_files
  with s get_api_files_calls [of fp P w cfg req] P w show ?thesis by simp
next
  case POST_api_files
  with s post_api_files_calls [of fp P w cfg req] P m w show ?thesis by simp
next
  case PUT_api_files
  with s put_api_files_calls [of fp P w cfg req] P w show ?thesis by simp
next
  case DELETE_api_files
  with s delete_api_files_calls [of fp P w cfg req] P w show ?thesis by simp
next
  case GET_api_ls
  with s get_api_ls_calls [of fp P cwd w cfg req] P L w n show ?thesis by simp
next
  case POST_api_mkdir
  with s post_api_mkdir_calls [of fp P w cfg req] P w show ?thesis by simp
next
  case GET_api_stat
  with s get_api_stat_calls [of fp P w cfg req] P w show ?thesis by simp
next
  case GET_api_search
  with s get_api_search_calls [of cwd fp P w cfg req] L w n show ?thesis by simp
qed

subsection \<open>The second server hands joined paths to the file system as they are\<close>

lemma readFile_calls:
  "calls (snd (readFile pm p w)) = calls w @ [FsReadFile (path_join [basePath pm, p])]"
  by (simp add: readFile_def Let_def split: sum.splits)

lemma updateFile_calls:
  "calls (snd (updateFile pm p content w)) = calls w @ [FsWriteFile (path_join [basePath pm, p])]"
  by (simp add: updateFile_def Let_def split: sum.splits)

lemma deletePath_calls:
  "prefix (calls w @ [FsStat (path_join [basePath pm, p])]) (calls (snd (deletePath pm p w)))"
  by (simp add: deletePath_def Let_def split: sum.splits)

lemma createFile_calls:
  "prefix (calls w @ [FsMkdir (path_dirname (path_join [basePath pm, p]))])
     (calls (snd (createFile pm p content w)))"
  by (simp add: createFile_def Let_def split: sum.splits)

lemma runCommand_cwd:
  "runCommand pm rt cmd (options\<lparr>opt_cwd := Some dir\<rparr>) =
   runCommand pm (rt\<lparr>exec := \<lambda>c opts. exec rt c (opts\<lparr>exec_cwd := dir\<rparr>)\<rparr>) cmd options"
  by (simp add: runCommand_def runCommand_options_def merged_cwd_def
        split: option.splits exec_outcome.splits)

lemma runCommandStream_cwd:
  "runCommandStream pm rt cmd (options\<lparr>opt_cwd := Some dir\<rparr>) =
   runCommandStream pm (rt\<lparr>spawn := \<lambda>c opts. spawn rt c (opts\<lparr>spawn_cwd := dir\<rparr>)\<rparr>) cmd options"
  by (simp add: runCommandStream_def runCommandStream_options_def merged_cwd_def
        split: spawn_outcome.splits)

lemma post_shell_cwd:
  "post_shell pm rt req =
   post_shell pm (rt\<lparr>exec := \<lambda>c opts. exec rt c (opts\<lparr>exec_cwd := given_cwd req\<rparr>),
                      spawn := \<lambda>c opts. spawn rt c (opts\<lparr>spawn_cwd := given_cwd req\<rparr>)\<rparr>) req"
  by (simp add: post_shell_def runCommand_def runCommandStream_def runCommand_options_def
        runCommandStream_options_def merged_cwd_def
        split: option.splits exec_outcome.splits spawn_outcome.splits)

text \<open>
  Claim C2, as amended. In the agent, every route but the liveness probe hands the path
  of the request to \<open>safePath\<close> before anything else is done with it. When \<open>safePath\<close>
  refuses, the handler returns without a single call on the file system. When it
  returns a path, every call the handler makes is on that very path; the listing and
  the search also call on normalised paths that are inside it, and writing a file with
  its parent directories also calls \<open>fs.mkdir\<close> on its \<open>path.dirname\<close>. Hence, whenever
  the path \<open>safePath\<close> returned is inside \<open>WORKDIR\<close>, so is every call but that on the
  parent. The methods of \<open>ProjectManager\<close> make no check: they call the file system on
  \<open>path.join(basePath, p)\<close> whatever \<open>p\<close> is, and \<open>runCommand\<close>, \<open>runCommandStream\<close> and
  \<open>POST /api/shell\<close> hand the working directory of their caller to \<open>exec\<close> and \<open>spawn\<close>
  as it is.
\<close>

theorem file_system_calls_sandboxed:
  "(safePath (process_cwd cfg) (WORKDIR cfg) (client_path r req) = Inl e \<longrightarrow>
      snd (handle cfg r req w) = w) \<and>
   (WORKDIR cfg \<noteq> [] \<and> hd (WORKDIR cfg) = CHR ''/'' \<and>
    safePath (process_cwd cfg) (WORKDIR cfg) (client_path r req) = Inr fp \<longrightarrow>
      list_all (\<lambda>c. c \<in> set (calls w) \<or> call_path c = fp \<or>
                  ((r = GET_api_ls \<or> r = GET_api_search) \<and> normalized_absolute (call_path c) \<and>
                   inside (process_cwd cfg) fp (call_path c)) \<or>
                  (r = POST_api_files \<and> c = FsMkdir (path_dirname fp)))
        (calls (snd (handle cfg r req w))) \<and>
      (inside (process_cwd cfg) (WORKDIR cfg) fp \<longrightarrow>
         list_all (\<lambda>c. c \<in> set (calls w) \<or> inside (process_cwd cfg) (WORKDIR cfg) (call_path c) \<or>
                     (r = POST_api_files \<and> c = FsMkdir (path_dirname fp)))
           (calls (snd (handle cfg r req w))))) \<and>
   calls (snd (readFile pm p w)) = calls w @ [FsReadFile (path_join [basePath pm, p])] \<and>
   calls (snd (updateFile pm p content w)) = calls w @ [FsWriteFile (path_join [basePath pm, p])] \<and>
   prefix (calls w @ [FsStat (path_join [basePath pm, p])]) (calls (snd (deletePath pm p w))) \<and>
   prefix (calls w @ [FsMkdir (path_dirname (path_join [basePath pm, p]))])
     (calls (snd (createFile pm p content w))) \<and>
   runCommand pm rt cmd (options\<lparr>opt_cwd := Some dir\<rparr>) =
     runCommand pm (rt\<lparr>exec := \<lambda>c opts. exec rt c (opts\<lparr>exec_cwd := dir\<rparr>)\<rparr>) cmd options \<and>
   runCommandStream pm rt cmd (options\<lparr>opt_cwd := Some dir\<rparr>) =
     runCommandStream pm (rt\<lparr>spawn := \<lambda>c opts. spawn rt c (opts\<lparr>spawn_cwd := dir\<rparr>)\<rparr>) cmd options \<and>
   post_shell pm rt mreq =
     post_shell pm (rt\<lparr>exec := \<lambda>c opts. exec rt c (opts\<lparr>exec_cwd := given_cwd mreq\<rparr>),
                        spawn := \<lambda>c opts. spawn rt c (opts\<lparr>spawn_cwd := given_cwd mreq\<rparr>)\<rparr>) mreq"
proof -
  let ?cwd = "process_cwd cfg"
  let ?P = "\<lambda>c. c \<in> set (calls w) \<or> call_path c = fp \<or>
                  ((r = GET_api_ls \<or> r = GET_api_search) \<and> normalized_absolute (call_path c) \<and>
                   inside ?cwd fp (call_path c)) \<or>
                  (r = POST_api_files \<and> c = FsMkdir (path_dirname fp))"
  let ?Q = "\<lambda>c. c \<in> set (calls w) \<or> inside ?cwd (WORKDIR cfg) (call_path c) \<or>
                  (r = POST_api_files \<and> c = FsMkdir (path_dirname fp))"
  have a: "snd (handle cfg r req w) = w"
    if "safePath (process_cwd cfg) (WORKDIR cfg) (client_path r req) = Inl e"
    using that by (rule refused_untouched)
  have b: "list_all ?P (calls (snd (handle cfg r req w))) \<and>
           (inside ?cwd (WORKDIR cfg) fp \<longrightarrow> list_all ?Q (calls (snd (handle cfg r req w))))"
    if h: "WORKDIR cfg \<noteq> [] \<and> hd (WORKDIR cfg) = CHR ''/'' \<and>
           safePath (process_cwd cfg) (WORKDIR cfg) (client_path r req) = Inr fp"
  proof -
    from h have h1: "WORKDIR cfg \<noteq> []" and h2: "hd (WORKDIR cfg) = CHR ''/''"
      and s: "safePath (process_cwd cfg) (WORKDIR cfg) (client_path r req) = Inr fp"
      by simp_all
    from safePath_normalized [OF h1 h2 s] have n: "normalized_absolute fp"
      by simp
    have 1: "list_all ?P (calls (snd (handle cfg r req w)))"
    proof (rule handle_calls [where fp = fp and cwd = ?cwd])
      show "list_all ?P (calls w)" by (simp add: list_all_iff)
    qed (use n s in simp_all)
    have 2: "list_all ?Q (calls (snd (handle cfg r req w)))" if i: "inside ?cwd (WORKDIR cfg) fp"
    proof -
      have "?Q c" if "?P c" for c
        using that i inside_trans [of ?cwd "WORKDIR cfg" fp "call_path c"] by auto
      with 1 show ?thesis
        by (simp add: list_all_iff)
    qed
    from 1 2 show ?thesis by blast
  qed
  have c1: "calls (snd (readFile pm p w)) = calls w @ [FsReadFile (path_join [basePath pm, p])]"
    by (rule readFile_calls)
  have c2: "calls (snd (updateFile pm p content w)) = calls w @ [FsWriteFile (path_join [basePath pm, p])]"
    by (rule updateFile_calls)
  have c3: "prefix (calls w @ [FsStat (path_join [basePath pm, p])]) (calls (snd (deletePath pm p w)))"
    by (rule deletePath_calls)
  have c4: "prefix (calls w @ [FsMkdir (path_dirname (path_join [basePath pm, p]))])
     (calls (snd (createFile pm p content w)))"
    by (rule createFile_calls)
  have c5: "runCommand pm rt cmd (options\<lparr>opt_cwd := Some dir\<rparr>) =
     runCommand pm (rt\<lparr>exec := \<lambda>c opts. exec rt c (opts\<lparr>exec_cwd := dir\<rparr>)\<rparr>) cmd options"
    by (rule runCommand_cwd)
  have c6: "runCommandStream pm rt cmd (options\<lparr>opt_cwd := Some dir\<rparr>) =
     runCommandStream pm (rt\<lparr>spawn := \<lambda>c opts. spawn rt c (opts\<lparr>spawn_cwd := dir\<rparr>)\<rparr>) cmd options"
    by (rule runCommandStream_cwd)
  have c7: "post_shell pm rt mreq =
     post_shell pm (rt\<lparr>exec := \<lambda>c opts. exec rt c (opts\<lparr>exec_cwd := given_cwd mreq\<rparr>),
                        spawn := \<lambda>c opts. spawn rt c (opts\<lparr>spawn_cwd := given_cwd mreq\<rparr>)\<rparr>) mreq"
    by (rule post_shell_cwd)
  from a b c1 c2 c3 c4 c5 c6 c7 show ?thesis by blast
qed

theorem file_system_calls_sandboxed_witness:
  "snd (handle example_config GET_api_files
          (no_request\<lparr>authorization := Some ''Bearer secrets'', query_path := Some ''../../etc/passwd''\<rparr>)
          example_world) = example_world \<and>
   list_all (\<lambda>c. inside ''/home/user/work/.codespace-agent'' ''/home/user/work'' (call_path c))
     (calls (snd (handle example_config GET_api_ls
          (no_request\<lparr>authorization := Some ''Bearer secrets'', query_detailed := Some ''true''\<rparr>)
          example_world)))"
proof -
  let ?bad = "no_request\<lparr>authorization := Some ''Bearer secrets'', query_path := Some ''../../etc/passwd''\<rparr>"
  let ?ls = "no_request\<lparr>authorization := Some ''Bearer secrets'', query_detailed := Some ''true''\<rparr>"
  have h1: "safePath (process_cwd example_config) (WORKDIR example_config)
              (client_path GET_api_files ?bad) = Inl OutsideWorkdir"
    by (simp add: example_config_def no_request_def safePath_def path_resolve_def normalizeString_def)
  have h2: "WORKDIR example_config \<noteq> [] \<and> hd (WORKDIR example_config) = CHR ''/'' \<and>
            safePath (process_cwd example_config) (WORKDIR example_config)
              (client_path GET_api_ls ?ls) = Inr ''/home/user/work''"
    by (simp add: example_config_def no_request_def safePath_def path_resolve_def normalizeString_def)
  have h3: "inside (process_cwd example_config) (WORKDIR example_config) ''/home/user/work''"
    by (simp add: example_config_def inside_def)
  have c: "process_cwd example_config = ''/home/user/work/.codespace-agent''"
    "WORKDIR example_config = ''/home/user/work''"
    by (simp_all add: example_config_def)
  from file_system_calls_sandboxed [of example_config GET_api_files ?bad OutsideWorkdir example_world] h1
  have 1: "snd (handle example_config GET_api_files ?bad example_world) = example_world"
    by blast
  from file_system_calls_sandboxed [of example_config GET_api_ls ?ls _ example_world "''/home/user/work''"] h2 h3
  have "list_all (\<lambda>c. c \<in> set (calls example_world) \<or>
                  inside (process_cwd example_config) (WORKDIR example_config) (call_path c) \<or>
                  (GET_api_ls = POST_api_files \<and> c = FsMkdir (path_dirname ''/home/user/work'')))
        (calls (snd (handle example_config GET_api_ls ?ls example_world)))"
    by blast
  then have 2: "list_all (\<lambda>c. inside ''/home/user/work/.codespace-agent'' ''/home/user/work'' (call_path c))
     (calls (snd (handle example_config GET_api_ls ?ls example_world)))"
    by (simp add: example_world_def c)
  from 1 2 show ?thesis ..
qed

text \<open>
  The claim as stated covers every operation of the system. Reading
  \<open>../../../etc/passwd\<close> through \<open>POST /api/files\<close> of the second server makes one call on
  the file system, on \<open>../../../../etc/passwd\<close>, which is \<open>/etc/passwd\<close>, not inside the
  directory \<open>basePath\<close> names, and the content comes back.
\<close>

theorem manager_read_outside_counterexample:
  "\<not> list_all (\<lambda>c. inside (manager_cwd example_manager) (basePath example_manager) (call_path c))
       (calls (snd (post_files example_manager
          (no_manager_request\<lparr>given_files := Some [''../../../etc/passwd'']\<rparr>) example_world)))"
  by (simp add: post_files_def readFile_def example_manager_def no_manager_request_def
        example_world_def example_files_def path_join_def path_normalize_def normalizeString_def
        inside_def segments_of_def fs_readFile_def fs_lookup_def Let_def)

lemma manager_read_outside_content:
  "fst (post_files example_manager
          (no_manager_request\<lparr>given_files := Some [''../../../etc/passwd'']\<rparr>) example_world)
   = \<lparr>manager_status = 200,
      manager_body = ReadDone [(''../../../etc/passwd'',
         Inr \<lparr>read_success = True, read_content = ''root:x:0:0'',
              read_path = ''../../../../etc/passwd''\<rparr>)]\<rparr>"
  by (simp add: post_files_def readFile_def example_manager_def no_manager_request_def
        example_world_def example_files_def path_join_def path_normalize_def normalizeString_def
        segments_of_def fs_readFile_def fs_lookup_def Let_def)

text \<open>
  The one call that is not on or below the path \<open>safePath\<close> returned: writing to \<open>.\<close>
  with \<open>createDirs\<close> asks \<open>fs.mkdir\<close> for the parent of the working directory (which
  exists, so nothing is made) before \<open>fs.writeFile\<close> refuses the directory.
\<close>

lemma write_to_working_directory_calls:
  "handle example_config POST_api_files
     (no_request\<lparr>authorization := Some ''Bearer secrets'', body_path := Some ''.'',
        body_content := Some ''x''\<rparr>) example_world
   = (\<lparr>status = 400, body = ErrorBody (FsError EISDIR)\<rparr>,
      \<lparr>files = example_files, calls = [FsMkdir ''/home/user'', FsWriteFile ''/home/user/work'']\<rparr>)"
  by (simp add: post_api_files_def assertAuth_def safePath_def path_resolve_def normalizeString_def
        isAllowedExtension_def path_dirname_def segments_of_def fs_mkdir_def fs_writeFile_def
        fs_lookup_def logged_def example_config_def example_world_def example_files_def
        no_request_def Let_def)

text \<open>
  A path that continues the name of the working directory passes \<open>safePath\<close>, and the
  handler then calls the file system outside the working directory.
\<close>

lemma sibling_directory_calls:
  "calls (snd (handle example_config GET_api_stat
     (no_request\<lparr>authorization := Some ''Bearer secrets'', query_path := Some ''../work-evil/x''\<rparr>)
     example_world)) = [FsAccess ''/home/user/work-evil/x''] \<and>
   \<not> inside (process_cwd example_config) (WORKDIR example_config) ''/home/user/work-evil/x''"
  by (simp add: get_api_stat_def fileExists_def getFileStats_def assertAuth_def safePath_def path_resolve_def
        normalizeString_def inside_def segments_of_def fs_stat_def fs_lookup_def logged_def
        example_config_def example_world_def example_files_def no_request_def Let_def)

subsection \<open>Requests without the credential\<close>

text \<open>
  Claim C3, as amended. In the agent, every route but the liveness probe answers a
  request whose \<open>Authorization\<close> header is missing or is not exactly \<open>Bearer\<close>, a space
  and the configured token with \<open>401 Unauthorized\<close>, and the world is untouched; a
  request with the exact credential is never answered 401; the liveness probe answers
  200 to every request. The routes of the second server do not read the header: their
  answer is the same whatever it holds.
\<close>

theorem requests_need_credential:
  "(r \<noteq> GET_health \<and> authorization req \<noteq> Some (''Bearer '' @ AGENT_TOKEN cfg) \<longrightarrow>
      handle cfg r req w = (unauthorized, w)) \<and>
   status unauthorized = 401 \<and>
   (authorization req = Some (''Bearer '' @ AGENT_TOKEN cfg) \<longrightarrow>
      status (fst (handle cfg r req w)) \<noteq> 401) \<and>
   status (fst (handle cfg GET_health req w)) = 200 \<and>
   post_shell pm rt (mreq\<lparr>manager_authorization := a\<rparr>) = post_shell pm rt mreq \<and>
   post_files pm (mreq\<lparr>manager_authorization := a\<rparr>) w = post_files pm mreq w \<and>
   post_files_update pm (mreq\<lparr>manager_authorization := a\<rparr>) w = post_files_update pm mreq w \<and>
   post_files_delete pm (mreq\<lparr>manager_authorization := a\<rparr>) w = post_files_delete pm mreq w"
proof -
  have 1: "handle cfg r req w = (unauthorized, w)"
    if "r \<noteq> GET_health" "authorization req \<noteq> Some (''Bearer '' @ AGENT_TOKEN cfg)"
    using that unauthorized_rejected [of cfg req r w] by (simp add: assertAuth_iff)
  have 2: "status (fst (handle cfg r req w)) \<noteq> 401"
    if "authorization req = Some (''Bearer '' @ AGENT_TOKEN cfg)"
    using that authorized_not_401 [of cfg req r w] by (simp add: assertAuth_iff)
  have 3: "status unauthorized = 401" "status (fst (handle cfg GET_health req w)) = 200"
    by (simp_all add: unauthorized_def get_health_def)
  have 4: "post_shell pm rt (mreq\<lparr>manager_authorization := a\<rparr>) = post_shell pm rt mreq"
    "post_files pm (mreq\<lparr>manager_authorization := a\<rparr>) w = post_files pm mreq w"
    "post_files_update pm (mreq\<lparr>manager_authorization := a\<rparr>) w = post_files_update pm mreq w"
    "post_files_delete pm (mreq\<lparr>manager_authorization := a\<rparr>) w = post_files_delete pm mreq w"
    by (simp_all add: post_shell_def post_files_def post_files_update_def post_files_delete_def
          Let_def split: option.splits)
  from 1 2 3 4 show ?thesis by blast
qed

theorem requests_need_credential_witness:
  "handle example_config DELETE_api_files
     (no_request\<lparr>authorization := Some ''Bearer guess'', query_path := Some ''src'',
        query_recursive := Some ''true''\<rparr>) example_world = (unauthorized, example_world) \<and>
   status (fst (handle example_config GET_api_files
     (no_request\<lparr>authorization := Some ''Bearer secrets'', query_path := Some ''src/app.js''\<rparr>)
     example_world)) \<noteq> 401"
proof -
  let ?bad = "no_request\<lparr>authorization := Some ''Bearer guess'', query_path := Some ''src'',
        query_recursive := Some ''true''\<rparr>"
  let ?good = "no_request\<lparr>authorization := Some ''Bearer secrets'', query_path := Some ''src/app.js''\<rparr>"
  have h1: "DELETE_api_files \<noteq> GET_health \<and>
            authorization ?bad \<noteq> Some (''Bearer '' @ AGENT_TOKEN example_config)"
    by (simp add: no_request_def example_config_def)
  have h2: "authorization ?good = Some (''Bearer '' @ AGENT_TOKEN example_config)"
    by (simp add: no_request_def example_config_def)
  from requests_need_credential [of DELETE_api_files ?bad example_config example_world] h1
  have 1: "handle example_config DELETE_api_files ?bad example_world = (unauthorized, example_world)"
    by blast
  from requests_need_credential [of GET_api_files ?good example_config example_world] h2
  have 2: "status (fst (handle example_config GET_api_files ?good example_world)) \<noteq> 401"
    by blast
  from 1 2 show ?thesis ..
qed

text \<open>
  The claim as stated covers every handler. \<open>POST /api/shell\<close> of the second server runs
  the command of a request that carries no \<open>Authorization\<close> header and answers 200.
\<close>

theorem shell_without_credential_counterexample:
  "\<not> (manager_authorization (no_manager_request\<lparr>given_command := Some ''id''\<rparr>) \<noteq> Some ''Bearer secrets''
       \<longrightarrow> (\<exists>resp. post_shell example_manager example_runtime
                    (no_manager_request\<lparr>given_command := Some ''id''\<rparr>) = Some resp \<and>
                   manager_status resp = 401))"
  by (simp add: post_shell_def runCommand_def example_runtime_def no_manager_request_def)

subsection \<open>Lookups after a change of the file system\<close>

lemma map_of_filter_key:
  "map_of (filter (\<lambda>e. Q (fst e)) fs) k = (if Q k then map_of fs k else None)"
  by (induction fs) auto

lemma fs_lookup_put:
  "fs_lookup (fs_put k n fs) k' =
     (if k' = [] then Some Dir else if k' = k then Some n else fs_lookup fs k')"
  using map_of_filter_key [of "\<lambda>q. q \<noteq> k" fs k']
  by (simp add: fs_lookup_def fs_put_def)

lemma fs_lookup_remove:
  "k' \<noteq> [] \<Longrightarrow> fs_lookup (filter (\<lambda>e. \<not> prefix k (fst e)) fs) k'
     = (if prefix k k' then None else fs_lookup fs k')"
  using map_of_filter_key [of "\<lambda>q. \<not> prefix k q" fs k']
  by (simp add: fs_lookup_def)

lemma fs_writeFile_result:
  "fs_writeFile fs k content = Inr fs' \<Longrightarrow> fs' = fs_put k (File content) fs"
  by (auto simp: fs_writeFile_def split: option.splits node.splits)

subsection \<open>Updating a file\<close>

lemma put_missing_404:
  assumes "assertAuth cfg (authorization req)"
    and "body_path req = Some p" "p \<noteq> []" "body_content req = Some content"
    and "safePath (process_cwd cfg) (WORKDIR cfg) (Some p) = Inr fp"
    and "fs_lookup (files w) (agent_key cfg fp) = None"
  shows "put_api_files cfg req w
     = (\<lparr>status = 404, body = ErrorBody (ErrorMessage ''File not found'')\<rparr>, logged (FsAccess fp) w)"
  using assms by (simp add: put_api_files_def fileExists_def agent_key_def)

lemma put_never_creates:
  assumes "fs_lookup (files w) k = None"
  shows "fs_lookup (files (snd (put_api_files cfg req w))) k = None"
proof -
  have "fs_lookup fs' k = None"
    if "fs_lookup (files w) q \<noteq> None" "fs_writeFile (files w) q content = Inr fs'" for q content fs'
  proof -
    from that(2) have "fs' = fs_put q (File content) (files w)"
      by (rule fs_writeFile_result)
    moreover from that(1) assms have "k \<noteq> q" by auto
    moreover from assms have "k \<noteq> []" by (auto simp: fs_lookup_def)
    ultimately show ?thesis using assms by (simp add: fs_lookup_put)
  qed
  with assms show ?thesis
    by (auto simp: put_api_files_def fileExists_def Let_def case_prod_beta
          split: option.splits sum.splits)
qed

lemma updateFile_creates:
  assumes "fs_lookup (files w) (butlast (manager_key pm q)) = Some Dir"
    and "fs_lookup (files w) (manager_key pm q) \<noteq> Some Dir"
  shows "(\<exists>r. fst (updateFile pm q content w) = Inr r) \<and>
         fs_lookup (files (snd (updateFile pm q content w))) (manager_key pm q) = Some (File content)"
proof -
  from assms(2) have "manager_key pm q \<noteq> []"
    by (auto simp: fs_lookup_def)
  moreover have "fs_writeFile (files w) (manager_key pm q) content
      = Inr (fs_put (manager_key pm q) (File content) (files w))"
    using assms by (auto simp: fs_writeFile_def split: option.splits node.splits)
  ultimately show ?thesis
    by (simp add: updateFile_def Let_def manager_key_def [symmetric] fs_lookup_put)
qed

text \<open>
  Claim C8, as amended. \<open>PUT /api/files\<close> of the agent, on an authorised request with a
  path and a content whose path \<open>safePath\<close> accepts, answers \<open>404 File not found\<close> when
  nothing exists at the path, and leaves the file system as it was; whatever the
  request, it never brings into existence an entry that was not there.
  \<open>ProjectManager.updateFile\<close> makes no such test: where the directory of the path
  exists (and the path is no directory), it writes the file, creating it when it is
  missing.
\<close>

theorem update_of_missing_file:
  "(authorization req = Some (''Bearer '' @ AGENT_TOKEN cfg) \<and> body_path req = Some p \<and> p \<noteq> [] \<and>
    body_content req = Some content \<and>
    safePath (process_cwd cfg) (WORKDIR cfg) (Some p) = Inr fp \<and>
    fs_lookup (files w) (agent_key cfg fp) = None \<longrightarrow>
      fst (put_api_files cfg req w)
        = \<lparr>status = 404, body = ErrorBody (ErrorMessage ''File not found'')\<rparr> \<and>
      files (snd (put_api_files cfg req w)) = files w) \<and>
   (fs_lookup (files w) k = None \<longrightarrow> fs_lookup (files (snd (put_api_files cfg req w))) k = None) \<and>
   (fs_lookup (files w) (butlast (manager_key pm q)) = Some Dir \<and>
    fs_lookup (files w) (manager_key pm q) \<noteq> Some Dir \<longrightarrow>
      (\<exists>r. fst (updateFile pm q content w) = Inr r) \<and>
      fs_lookup (files (snd (updateFile pm q content w))) (manager_key pm q) = Some (File content))"
proof -
  have 1: "fst (put_api_files cfg req w)
        = \<lparr>status = 404, body = ErrorBody (ErrorMessage ''File not found'')\<rparr> \<and>
      files (snd (put_api_files cfg req w)) = files w"
    if "authorization req = Some (''Bearer '' @ AGENT_TOKEN cfg)" "body_path req = Some p" "p \<noteq> []"
      "body_content req = Some content"
      "safePath (process_cwd cfg) (WORKDIR cfg) (Some p) = Inr fp"
      "fs_lookup (files w) (agent_key cfg fp) = None"
    using put_missing_404 [of cfg req p content fp w] that by (simp add: assertAuth_iff)
  from 1 put_never_creates [of w k cfg req] updateFile_creates [of w pm q content]
  show ?thesis by blast
qed

theorem update_of_missing_file_witness:
  "fst (put_api_files example_config
     (no_request\<lparr>authorization := Some ''Bearer secrets'', body_path := Some ''src/new.js'',
        body_content := Some ''x''\<rparr>) example_world)
     = \<lparr>status = 404, body = ErrorBody (ErrorMessage ''File not found'')\<rparr> \<and>
   fs_lookup (files (snd (put_api_files example_config
     (no_request\<lparr>authorization := Some ''Bearer secrets'', body_path := Some ''src/new.js'',
        body_content := Some ''x''\<rparr>) example_world)))
     [''home'', ''user'', ''work'', ''src'', ''new.js''] = None \<and>
   fs_lookup (files (snd (updateFile example_manager ''src/new.js'' ''x'' example_world)))
     [''home'', ''user'', ''work'', ''src'', ''new.js''] = Some (File ''x'')"
proof -
  let ?req = "no_request\<lparr>authorization := Some ''Bearer secrets'', body_path := Some ''src/new.js'',
        body_content := Some ''x''\<rparr>"
  let ?k = "[''home'', ''user'', ''work'', ''src'', ''new.js'']"
  have s: "safePath (process_cwd example_config) (WORKDIR example_config) (Some ''src/new.js'')
             = Inr ''/home/user/work/src/new.js''"
    by (simp add: example_config_def safePath_def path_resolve_def normalizeString_def)
  have ak: "agent_key example_config ''/home/user/work/src/new.js'' = ?k"
    by (simp add: agent_key_def segments_of_def example_config_def)
  have mk: "manager_key example_manager ''src/new.js'' = ?k"
    by (simp add: manager_key_def segments_of_def example_manager_def path_join_def
          path_normalize_def normalizeString_def)
  have l: "fs_lookup (files example_world) ?k = None"
    "fs_lookup (files example_world) (butlast ?k) = Some Dir"
    by (simp_all add: example_world_def example_files_def fs_lookup_def)
  have h1: "authorization ?req = Some (''Bearer '' @ AGENT_TOKEN example_config) \<and>
            body_path ?req = Some ''src/new.js'' \<and> ''src/new.js'' \<noteq> [] \<and>
            body_content ?req = Some ''x'' \<and>
            safePath (process_cwd example_config) (WORKDIR example_config) (Some ''src/new.js'')
              = Inr ''/home/user/work/src/new.js'' \<and>
            fs_lookup (files example_world) (agent_key example_config ''/home/user/work/src/new.js'') = None"
  proof -
    have a: "authorization ?req = Some (''Bearer '' @ AGENT_TOKEN example_config)"
      "body_path ?req = Some ''src/new.js''" "body_content ?req = Some ''x''"
      by (simp_all add: no_request_def example_config_def)
    have b: "fs_lookup (files example_world) (agent_key example_config ''/home/user/work/src/new.js'') = None"
      using l ak by simp
    from a s b show ?thesis by simp
  qed
  have h3: "fs_lookup (files example_world) (butlast (manager_key example_manager ''src/new.js'')) = Some Dir \<and>
            fs_lookup (files example_world) (manager_key example_manager ''src/new.js'') \<noteq> Some Dir"
    using l by (simp add: mk)
  note t = update_of_missing_file [of ?req example_config "''src/new.js''" "''x''"
      "''/home/user/work/src/new.js''" example_world ?k example_manager "''src/new.js''"]
  from t h1 have 1: "fst (put_api_files example_config ?req example_world)
     = \<lparr>status = 404, body = ErrorBody (ErrorMessage ''File not found'')\<rparr>"
    by blast
  from t l have 2: "fs_lookup (files (snd (put_api_files example_config ?req example_world))) ?k = None"
    by blast
  from t h3 have 3: "fs_lookup (files (snd (updateFile example_manager ''src/new.js'' ''x'' example_world)))
     (manager_key example_manager ''src/new.js'') = Some (File ''x'')"
    by blast
  from 1 2 3 show ?thesis by (simp add: mk)
qed

text \<open>
  The claim as stated covers every update. \<open>POST /api/files/update\<close> of the second
  server, on \<open>src/new.js\<close>, which does not exist, answers 200, and the file exists
  afterwards.
\<close>

theorem manager_update_creates_counterexample:
  "fs_lookup (files example_world) [''home'', ''user'', ''work'', ''src'', ''new.js''] = None \<and>
   \<not> (manager_status (fst (post_files_update example_manager
          (no_manager_request\<lparr>given_path := Some ''src/new.js'', given_content := Some ''x''\<rparr>)
          example_world)) = 404 \<and>
      fs_lookup (files (snd (post_files_update example_manager
          (no_manager_request\<lparr>given_path := Some ''src/new.js'', given_content := Some ''x''\<rparr>)
          example_world))) [''home'', ''user'', ''work'', ''src'', ''new.js''] = None)"
  by (simp add: post_files_update_def updateFile_def example_manager_def no_manager_request_def
        example_world_def example_files_def path_join_def path_normalize_def normalizeString_def
        segments_of_def fs_writeFile_def fs_lookup_def fs_put_def Let_def)

subsection \<open>Deleting a directory\<close>

lemma delete_directory_without_flag:
  assumes "assertAuth cfg (authorization req)"
    and "safePath (process_cwd cfg) (WORKDIR cfg) (query_path req) = Inr fp"
    and "fs_lookup (files w) (agent_key cfg fp) = Some Dir"
    and "query_recursive req \<noteq> Some ''true''"
  shows "fst (delete_api_files cfg req w) = \<lparr>status = 400, body = ErrorBody (FsError ERR_FS_EISDIR)\<rparr>"
    and "files (snd (delete_api_files cfg req w)) = files w"
  using assms
  by (simp_all add: delete_api_files_def fileExists_def getFileStats_def fs_stat_def fs_rm_def
        agent_key_def Let_def)

lemma delete_directory_with_flag:
  assumes "assertAuth cfg (authorization req)"
    and "safePath (process_cwd cfg) (WORKDIR cfg) (query_path req) = Inr fp"
    and "fs_lookup (files w) (agent_key cfg fp) = Some Dir"
    and "query_recursive req = Some ''true''"
  shows "fst (delete_api_files cfg req w) = \<lparr>status = 200, body = DeletedBody (query_path req)\<rparr>"
    and "files (snd (delete_api_files cfg req w))
           = filter (\<lambda>e. \<not> prefix (agent_key cfg fp) (fst e)) (files w)"
  using assms
  by (simp_all add: delete_api_files_def fileExists_def getFileStats_def fs_stat_def fs_rm_def
        agent_key_def Let_def)

lemma deletePath_directory:
  assumes "fs_lookup (files w) (manager_key pm q) = Some Dir"
  shows "fst (deletePath pm q w)
           = Inr \<lparr>delete_success = True, delete_message = ''Directory deleted: '' @ q\<rparr>"
    and "files (snd (deletePath pm q w))
           = filter (\<lambda>e. \<not> prefix (manager_key pm q) (fst e)) (files w)"
  using assms
  by (simp_all add: deletePath_def fs_stat_def fs_rm_def manager_key_def Let_def)

text \<open>
  Claim C9, as amended. \<open>DELETE /api/files\<close> of the agent, on an authorised request whose
  path \<open>safePath\<close> accepts and names a directory, empty or not: unless the query says
  \<open>recursive=true\<close> it answers 400 (\<open>fs.rm\<close> refuses a directory) and the file system is
  as it was; with \<open>recursive=true\<close> it answers 200, and the directory (when it is not
  the root of the file system) and all that was below it are gone, so that
  \<open>fileExists\<close> on the path says no. \<open>ProjectManager.deletePath\<close> has no such flag: it
  removes a directory with all that is below it.
\<close>

theorem delete_of_directory:
  "(authorization req = Some (''Bearer '' @ AGENT_TOKEN cfg) \<and>
    safePath (process_cwd cfg) (WORKDIR cfg) (query_path req) = Inr fp \<and>
    fs_lookup (files w) (agent_key cfg fp) = Some Dir \<and> query_recursive req \<noteq> Some ''true'' \<longrightarrow>
      status (fst (delete_api_files cfg req w)) = 400 \<and>
      files (snd (delete_api_files cfg req w)) = files w) \<and>
   (authorization req = Some (''Bearer '' @ AGENT_TOKEN cfg) \<and>
    safePath (process_cwd cfg) (WORKDIR cfg) (query_path req) = Inr fp \<and>
    fs_lookup (files w) (agent_key cfg fp) = Some Dir \<and> agent_key cfg fp \<noteq> [] \<and>
    query_recursive req = Some ''true'' \<and> prefix (agent_key cfg fp) k \<longrightarrow>
      status (fst (delete_api_files cfg req w)) = 200 \<and>
      fst (fileExists cfg fp (snd (delete_api_files cfg req w))) = False \<and>
      fs_lookup (files (snd (delete_api_files cfg req w))) k = None) \<and>
   (fs_lookup (files w) (manager_key pm q) = Some Dir \<and> manager_key pm q \<noteq> [] \<and>
    prefix (manager_key pm q) k \<longrightarrow>
      (\<exists>r. fst (deletePath pm q w) = Inr r) \<and>
      fs_lookup (files (snd (deletePath pm q w))) k = None)"
proof -
  have 1: "status (fst (delete_api_files cfg req w)) = 400 \<and>
      files (snd (delete_api_files cfg req w)) = files w"
    if "authorization req = Some (''Bearer '' @ AGENT_TOKEN cfg)"
      "safePath (process_cwd cfg) (WORKDIR cfg) (query_path req) = Inr fp"
      "fs_lookup (files w) (agent_key cfg fp) = Some Dir" "query_recursive req \<noteq> Some ''true''"
    using delete_directory_without_flag [of cfg req fp w] that by (simp add: assertAuth_iff)
  have 2: "status (fst (delete_api_files cfg req w)) = 200 \<and>
      fst (fileExists cfg fp (snd (delete_api_files cfg req w))) = False \<and>
      fs_lookup (files (snd (delete_api_files cfg req w))) k = None"
    if a: "authorization req = Some (''Bearer '' @ AGENT_TOKEN cfg)"
      "safePath (process_cwd cfg) (WORKDIR cfg) (query_path req) = Inr fp"
      "fs_lookup (files w) (agent_key cfg fp) = Some Dir"
      "query_recursive req = Some ''true''"
      and n: "agent_key cfg fp \<noteq> []" and p: "prefix (agent_key cfg fp) k"
  proof -
    from delete_directory_with_flag [of cfg req fp w] a
    have s: "fst (delete_api_files cfg req w) = \<lparr>status = 200, body = DeletedBody (query_path req)\<rparr>"
      and f: "files (snd (delete_api_files cfg req w))
           = filter (\<lambda>e. \<not> prefix (agent_key cfg fp) (fst e)) (files w)"
      by (simp_all add: assertAuth_iff)
    from n p have "k \<noteq> []" by auto
    with f p have "fs_lookup (files (snd (delete_api_files cfg req w))) k = None"
      by (simp add: fs_lookup_remove)
    moreover from f n have "fs_lookup (files (snd (delete_api_files cfg req w))) (agent_key cfg fp) = None"
      by (simp add: fs_lookup_remove)
    then have "fst (fileExists cfg fp (snd (delete_api_files cfg req w))) = False"
      by (simp add: fileExists_def agent_key_def)
    ultimately show ?thesis using s by simp
  qed
  have 3: "(\<exists>r. fst (deletePath pm q w) = Inr r) \<and>
      fs_lookup (files (snd (deletePath pm q w))) k = None"
    if d: "fs_lookup (files w) (manager_key pm q) = Some Dir" and n: "manager_key pm q \<noteq> []"
      and p: "prefix (manager_key pm q) k"
  proof -
    from n p have "k \<noteq> []" by auto
    with deletePath_directory [OF d] p show ?thesis
      by (simp add: fs_lookup_remove)
  qed
  from 1 2 3 show ?thesis by blast
qed

theorem delete_of_directory_witness:
  "status (fst (delete_api_files example_config
     (no_request\<lparr>authorization := Some ''Bearer secrets'', query_path := Some ''src''\<rparr>)
     example_world)) = 400 \<and>
   non_empty_directory (files (snd (delete_api_files example_config
     (no_request\<lparr>authorization := Some ''Bearer secrets'', query_path := Some ''src''\<rparr>)
     example_world))) [''home'', ''user'', ''work'', ''src''] \<and>
   status (fst (delete_api_files example_config
     (no_request\<lparr>authorization := Some ''Bearer secrets'', query_path := Some ''src'',
        query_recursive := Some ''true''\<rparr>) example_world)) = 200 \<and>
   fs_lookup (files (snd (delete_api_files example_config
     (no_request\<lparr>authorization := Some ''Bearer secrets'', query_path := Some ''src'',
        query_recursive := Some ''true''\<rparr>) example_world)))
     [''home'', ''user'', ''work'', ''src'', ''app.js''] = None \<and>
   fs_lookup (files (snd (deletePath example_manager ''src'' example_world)))
     [''home'', ''user'', ''work'', ''src''] = None"
proof -
  let ?plain = "no_request\<lparr>authorization := Some ''Bearer secrets'', query_path := Some ''src''\<rparr>"
  let ?flag = "no_request\<lparr>authorization := Some ''Bearer secrets'', query_path := Some ''src'',
        query_recursive := Some ''true''\<rparr>"
  let ?k = "[''home'', ''user'', ''work'', ''src'']"
  have s: "safePath (process_cwd example_config) (WORKDIR example_config) (Some ''src'')
             = Inr ''/home/user/work/src''"
    by (simp add: example_config_def safePath_def path_resolve_def normalizeString_def)
  have ak: "agent_key example_config ''/home/user/work/src'' = ?k"
    by (simp add: agent_key_def segments_of_def example_config_def)
  have mk: "manager_key example_manager ''src'' = ?k"
    by (simp add: manager_key_def segments_of_def example_manager_def path_join_def
          path_normalize_def normalizeString_def)
  have l: "fs_lookup (files example_world) ?k = Some Dir"
    by (simp add: example_world_def example_files_def fs_lookup_def)
  have ne: "non_empty_directory (files example_world) ?k"
    by (simp add: non_empty_directory_def example_world_def example_files_def fs_lookup_def)
  have q: "authorization ?plain = Some (''Bearer '' @ AGENT_TOKEN example_config)"
    "query_path ?plain = Some ''src''" "query_recursive ?plain \<noteq> Some ''true''"
    "authorization ?flag = Some (''Bearer '' @ AGENT_TOKEN example_config)"
    "query_path ?flag = Some ''src''" "query_recursive ?flag = Some ''true''"
    by (simp_all add: no_request_def example_config_def)
  have la: "fs_lookup (files example_world) (agent_key example_config ''/home/user/work/src'') = Some Dir"
    "agent_key example_config ''/home/user/work/src'' \<noteq> []"
    "prefix (agent_key example_config ''/home/user/work/src'') (?k @ [''app.js''])"
    using l by (simp_all add: ak)
  have lm: "fs_lookup (files example_world) (manager_key example_manager ''src'') = Some Dir"
    "manager_key example_manager ''src'' \<noteq> []"
    "prefix (manager_key example_manager ''src'') ?k"
    using l by (simp_all add: mk)
  note t1 = delete_of_directory [of ?plain example_config "''/home/user/work/src''" example_world]
  note t2 = delete_of_directory [of ?flag example_config "''/home/user/work/src''" example_world
      "?k @ [''app.js'']"]
  note t3 = delete_of_directory [of _ _ _ example_world ?k example_manager "''src''"]
  from t1 q s la have 1: "status (fst (delete_api_files example_config ?plain example_world)) = 400 \<and>
      files (snd (delete_api_files example_config ?plain example_world)) = files example_world"
    by simp
  from t2 q s la have 2: "status (fst (delete_api_files example_config ?flag example_world)) = 200 \<and>
      fs_lookup (files (snd (delete_api_files example_config ?flag example_world))) (?k @ [''app.js'']) = None"
    by simp
  from t3 lm have 3: "fs_lookup (files (snd (deletePath example_manager ''src'' example_world))) ?k = None"
    by blast
  from 1 2 3 ne show ?thesis by simp
qed

text \<open>
  The claim as stated covers every delete. \<open>POST /api/files/delete\<close> of the second
  server takes no recursive flag; on the directory \<open>src\<close>, which is not empty, it
  answers 200 and the directory is gone.
\<close>

theorem manager_delete_directory_counterexample:
  "non_empty_directory (files example_world) [''home'', ''user'', ''work'', ''src''] \<and>
   \<not> (manager_status (fst (post_files_delete example_manager
          (no_manager_request\<lparr>given_path := Some ''src''\<rparr>) example_world)) \<noteq> 200 \<and>
      fs_lookup (files (snd (post_files_delete example_manager
          (no_manager_request\<lparr>given_path := Some ''src''\<rparr>) example_world)))
        [''home'', ''user'', ''work'', ''src''] = Some Dir)"
  by (simp add: post_files_delete_def deletePath_def example_manager_def no_manager_request_def
        example_world_def example_files_def path_join_def path_normalize_def normalizeString_def
        segments_of_def fs_stat_def fs_rm_def fs_lookup_def non_empty_directory_def Let_def)

subsection \<open>Commands that run longer than the timeout\<close>

text \<open>
  Claim C7 asks that a command which runs longer than the timeout gives a result that
  tells of the timeout, and that its process is ended, on the buffered and on the
  streaming path alike. The code does neither. \<open>runCommand\<close> hands a timeout of 30000
  milliseconds to \<open>exec\<close> and leaves the process to it; of the error \<open>exec\<close> rejects with
  it reads \<open>stdout\<close>, \<open>stderr\<close>, \<open>message\<close> and \<open>code\<close>, never \<open>killed\<close> or \<open>signal\<close>,
  so that the result for a command ended by the timeout is the result for a command
  that failed by itself: \<open>success: false\<close>, \<open>exitCode: 1\<close> and the message "Command
  failed". \<open>runCommandStream\<close> hands no timeout to \<open>spawn\<close> and has no timer of its own:
  it settles only when the process does, never if the process never ends, and
  \<open>sleep 100\<close> is answered after its 100 seconds with \<open>success: true\<close>.
\<close>

theorem timeout_not_reported:
  "exec_timeout (runCommand_options pm \<lparr>opt_cwd = c, opt_timeout = None\<rparr>) = Some 30000 \<and>
   spawn_timeout (runCommandStream_options pm \<lparr>opt_cwd = c, opt_timeout = None\<rparr>) = None \<and>
   runCommand pm (rt\<lparr>exec := \<lambda>cmd opts. Some (ExecFailed (e\<lparr>err_killed := k, err_signal := s\<rparr>))\<rparr>)
       cmd options =
     runCommand pm (rt\<lparr>exec := \<lambda>cmd opts. Some (ExecFailed e)\<rparr>) cmd options \<and>
   runCommandStream pm (rt\<lparr>spawn := \<lambda>cmd opts. Pending\<rparr>) cmd options = None \<and>
   post_shell example_manager example_runtime (no_manager_request\<lparr>given_command := Some ''sleep 100''\<rparr>) =
     Some \<lparr>manager_status = 200,
           manager_body = CommandDone
             \<lparr>success = False, command = ''sleep 100'', stdout = [],
              stderr = ''Command failed: sleep 100'' @ [CHR 0x0A], exitCode = CodeNumber 1\<rparr>\<rparr> \<and>
   post_shell example_manager example_runtime
       (no_manager_request\<lparr>given_command := Some ''sleep 100'', given_stream := True\<rparr>) =
     Some \<lparr>manager_status = 200,
           manager_body = CommandDone
             \<lparr>success = True, command = ''sleep 100'', stdout = [], stderr = [],
              exitCode = CodeNumber 0\<rparr>\<rparr>"
proof -
  have 1: "exec_timeout (runCommand_options pm \<lparr>opt_cwd = c, opt_timeout = None\<rparr>) = Some 30000"
    by (simp add: runCommand_options_def)
  have 2: "spawn_timeout (runCommandStream_options pm \<lparr>opt_cwd = c, opt_timeout = None\<rparr>) = None"
    by (simp add: runCommandStream_options_def)
  have 3: "runCommand pm (rt\<lparr>exec := \<lambda>cmd opts. Some (ExecFailed (e\<lparr>err_killed := k, err_signal := s\<rparr>))\<rparr>)
       cmd options =
     runCommand pm (rt\<lparr>exec := \<lambda>cmd opts. Some (ExecFailed e)\<rparr>) cmd options"
    by (simp add: runCommand_def split: option.splits)
  have 4: "runCommandStream pm (rt\<lparr>spawn := \<lambda>cmd opts. Pending\<rparr>) cmd options = None"
    by (simp add: runCommandStream_def)
  have 5: "post_shell example_manager example_runtime (no_manager_request\<lparr>given_command := Some ''sleep 100''\<rparr>) =
     Some \<lparr>manager_status = 200,
           manager_body = CommandDone
             \<lparr>success = False, command = ''sleep 100'', stdout = [],
              stderr = ''Command failed: sleep 100'' @ [CHR 0x0A], exitCode = CodeNumber 1\<rparr>\<rparr>"
    by (simp add: post_shell_def runCommand_def runCommand_options_def merged_cwd_def
          example_runtime_def timed_out_def ends_before_def ascii_trim_def no_manager_request_def)
  have 6: "post_shell example_manager example_runtime
       (no_manager_request\<lparr>given_command := Some ''sleep 100'', given_stream := True\<rparr>) =
     Some \<lparr>manager_status = 200,
           manager_body = CommandDone
             \<lparr>success = True, command = ''sleep 100'', stdout = [], stderr = [],
              exitCode = CodeNumber 0\<rparr>\<rparr>"
    by (simp add: post_shell_def runCommandStream_def runCommandStream_options_def merged_cwd_def
          example_runtime_def ends_before_def ascii_trim_def no_manager_request_def)
  from 1 2 3 4 5 6 show ?thesis by blast
qed

text \<open>
  A process that cannot be started: \<open>runCommandStream\<close> rejects, and the route answers
  500 without a message.
\<close>

lemma stream_spawn_error:
  "runCommandStream pm (rt\<lparr>spawn := \<lambda>cmd opts. Errored m\<rparr>) cmd options =
     Some (Rejected \<lparr>failed_command = cmd, failed_error = m, failed_exitCode = 1\<rparr>) \<and>
   post_shell pm (rt\<lparr>spawn := \<lambda>cmd opts. Errored m\<rparr>)
       (no_manager_request\<lparr>given_command := Some ''id'', given_stream := True\<rparr>) =
     Some \<lparr>manager_status = 500, manager_body = FailedWithoutMessage\<rparr>"
  by (simp add: runCommandStream_def post_shell_def no_manager_request_def)

end
